theory Spec2Isabelle
  imports Main "HOL-Library.List_Lexorder"
begin

section \<open>Python values\<close>

text \<open>
  A Python \<open>str\<close> is a sequence of Unicode code points; the literals of the sources that
  leave ASCII are written as the code points the files hold.  An \<open>Optional[str]\<close> is a
  \<open>ustr option\<close>, a Python \<open>int\<close> is an \<open>int\<close>.  Exceptions are values of \<open>error\<close>.
\<close>

type_synonym ustr = "nat list"

definition lit :: "string \<Rightarrow> ustr" where
  "lit s = map of_char s"

datatype error =
    TelegramApiError
  | HTTPException int ustr
  | IntegrityError
  | IndexError
  | TypeError
  | SystemExit

text \<open>The code points for which \<open>str.isspace\<close> holds; \<open>str.strip()\<close> and \<open>str.split()\<close> use them.\<close>

definition whitespace :: "nat list" where
  "whitespace = [9, 10, 11, 12, 13, 28, 29, 30, 31, 32, 133, 160, 5760,
     8192, 8193, 8194, 8195, 8196, 8197, 8198, 8199, 8200, 8201, 8202,
     8232, 8233, 8239, 8287, 12288]"

definition isspace :: "nat \<Rightarrow> bool" where
  "isspace c = (c \<in> set whitespace)"

definition strip :: "ustr \<Rightarrow> ustr" where
  "strip s = rev (dropWhile isspace (rev (dropWhile isspace s)))"

definition startswith :: "ustr \<Rightarrow> ustr \<Rightarrow> bool" where
  "startswith s p = (take (length p) s = p)"

text \<open>\<open>s.split(sep)\<close> for a separator of one character.\<close>

fun split_sep :: "ustr \<Rightarrow> nat \<Rightarrow> ustr list" where
  "split_sep [] sep = [[]]"
| "split_sep (c # s) sep =
     (if c = sep then [] # split_sep s sep
      else (case split_sep s sep of
              [] \<Rightarrow> [[c]]
            | p # ps \<Rightarrow> (c # p) # ps))"

text \<open>\<open>sep.join(lines)\<close>.\<close>

fun join :: "ustr \<Rightarrow> ustr list \<Rightarrow> ustr" where
  "join sep [] = []"
| "join sep [l] = l"
| "join sep (l # ls) = l @ sep @ join sep ls"

text \<open>\<open>s.replace(old, new)\<close> for an \<open>old\<close> of one character.\<close>

definition replace_char :: "ustr \<Rightarrow> nat \<Rightarrow> ustr \<Rightarrow> ustr" where
  "replace_char s old new = concat (map (\<lambda>c. if c = old then new else [c]) s)"

text \<open>\<open>sub in s\<close>.\<close>

fun contains :: "ustr \<Rightarrow> ustr \<Rightarrow> bool" where
  "contains [] sub = (sub = [])"
| "contains (c # s) sub = (startswith (c # s) sub \<or> contains s sub)"

text \<open>Truthiness of an optional string and of an optional integer, and \<open>v or d\<close>.\<close>

definition truthy :: "ustr option \<Rightarrow> bool" where
  "truthy v = (case v of None \<Rightarrow> False | Some s \<Rightarrow> s \<noteq> [])"

definition truthy_int :: "int option \<Rightarrow> bool" where
  "truthy_int v = (case v of None \<Rightarrow> False | Some i \<Rightarrow> i \<noteq> 0)"

definition or_else :: "ustr option \<Rightarrow> ustr \<Rightarrow> ustr" where
  "or_else v d = (case v of None \<Rightarrow> d | Some s \<Rightarrow> if s = [] then d else s)"

text \<open>\<open>str(n)\<close> for an integer, as an f-string prints it.\<close>

function str_nat :: "nat \<Rightarrow> ustr" where
  "str_nat n = (if n < 10 then [48 + n] else str_nat (n div 10) @ [48 + n mod 10])"
  by pat_completeness auto
termination
  by (relation "measure (\<lambda>n. n)") auto

declare str_nat.simps [simp del]

definition str_int :: "int \<Rightarrow> ustr" where
  "str_int i = (if i < 0 then 45 # str_nat (nat (- i)) else str_nat (nat i))"

text \<open>
  \<open>int(s)\<close>: the code points that start a run of the ten decimal digits of a script
  (category Nd); the string is first brought to ASCII (a space for a non-ASCII white space,
  the ASCII digit for a decimal digit, and the conversion stops at \<open>?\<close> for anything else),
  then read as optional ASCII white space, an optional sign, digits with single underscores
  between them, and optional ASCII white space.  More than 4300 digits are refused.
  \<open>None\<close> is the \<open>ValueError\<close>.
\<close>

definition nd_zeros :: "nat list" where
  "nd_zeros = [48, 1632, 1776, 1984, 2406, 2534, 2662, 2790, 2918, 3046, 3174, 3302,
     3430, 3558, 3664, 3792, 3872, 4160, 4240, 6112, 6160, 6470, 6608, 6784, 6800, 6992,
     7088, 7232, 7248, 42528, 43216, 43264, 43472, 43504, 43600, 44016, 65296, 66720,
     68912, 69734, 69872, 69942, 70096, 70384, 70736, 70864, 71248, 71360, 71472, 71904,
     72016, 72784, 73040, 73120, 92768, 92864, 93008, 120782, 120792, 120802, 120812,
     120822, 123200, 123632, 125264, 130032]"

definition decimal :: "nat \<Rightarrow> nat option" where
  "decimal c = (case find (\<lambda>z. z \<le> c \<and> c < z + 10) nd_zeros of
                  None \<Rightarrow> None
                | Some z \<Rightarrow> Some (c - z))"

fun to_ascii :: "ustr \<Rightarrow> ustr" where
  "to_ascii [] = []"
| "to_ascii (c # s) =
     (if c < 127 then c # to_ascii s
      else if isspace c then 32 # to_ascii s
      else (case decimal c of
              None \<Rightarrow> [63]
            | Some d \<Rightarrow> (48 + d) # to_ascii s))"

definition ascii_space :: "nat \<Rightarrow> bool" where
  "ascii_space c = ((9 \<le> c \<and> c \<le> 13) \<or> c = 32)"

definition ascii_digit :: "nat \<Rightarrow> bool" where
  "ascii_digit c = (48 \<le> c \<and> c \<le> 57)"

fun underscores_ok :: "ustr \<Rightarrow> bool" where
  "underscores_ok [] = False"
| "underscores_ok [c] = (c \<noteq> 95)"
| "underscores_ok (c # d # s) = (\<not> (c = 95 \<and> d = 95) \<and> underscores_ok (d # s))"

definition int_max_str_digits :: nat where
  "int_max_str_digits = 4300"

definition py_int :: "ustr \<Rightarrow> int option" where
  "py_int s =
     (let s1 = dropWhile ascii_space (to_ascii s);
          neg = (case s1 of [] \<Rightarrow> False | c # _ \<Rightarrow> c = 45);
          s2 = (case s1 of [] \<Rightarrow> [] | c # r \<Rightarrow> if c = 43 \<or> c = 45 then r else s1);
          body = takeWhile (\<lambda>c. ascii_digit c \<or> c = 95) s2;
          rest = dropWhile (\<lambda>c. ascii_digit c \<or> c = 95) s2;
          ds = filter ascii_digit body
      in if body = [] \<or> hd body = 95 \<or> \<not> underscores_ok body then None
         else if int_max_str_digits < length ds then None
         else if dropWhile ascii_space rest \<noteq> [] then None
         else let v = foldl (\<lambda>a d. 10 * a + int (d - 48)) 0 ds
              in Some (if neg then - v else v))"


section \<open>Events, transport calls and the outside world\<close>

text \<open>
  The JSON objects the chat transport delivers, with a field absent as \<open>None\<close>:
  a chat, a message, an inline action invocation (callback query) and an update.
\<close>

record tg_chat =
  chat_id :: "int option"

record tg_message =
  msg_chat :: "tg_chat option"
  msg_message_id :: "int option"
  msg_text :: "ustr option"

record callback_query =
  cq_id :: "ustr option"
  cq_data :: "ustr option"
  cq_message :: "tg_message option"

record update =
  update_id :: "int option"
  upd_message :: "tg_message option"
  upd_callback_query :: "callback_query option"

text \<open>An inline keyboard: rows of buttons, each a text and its callback data.\<close>

type_synonym keyboard = "(ustr \<times> ustr) list list"

text \<open>The methods of \<open>TelegramClient\<close> with their arguments, as the program invokes them.\<close>

datatype tg_call =
    SendMessage int ustr "keyboard option"
  | EditMessageText int int ustr "keyboard option"
  | AnswerCallbackQuery ustr
  | GetUpdates "int option" int

record date =
  year :: nat
  month :: nat
  day :: nat

text \<open>
  What the program reads from outside itself: the clock (its \<open>k\<close>-th reading, as
  \<open>utc_now_iso\<close>, \<open>_utc_today\<close> and \<open>int(time.time())\<close> give it), the \<open>k\<close>-th token of
  \<open>secrets.token_urlsafe(16)\<close>, the outcome of the request behind the \<open>k\<close>-th method call on
  the client (an error, or the message id of the reply) and of a poll, and two functions of
  the \<open>datetime\<close> module: \<open>datetime.fromisoformat(s).strftime("%Y-%m-%d %H:%M")\<close> and
  \<open>date.fromisoformat(s)\<close>, with \<open>None\<close> where they raise.
\<close>

record env =
  clock_iso :: "nat \<Rightarrow> ustr"
  clock_today :: "nat \<Rightarrow> date"
  clock_epoch :: "nat \<Rightarrow> int"
  secrets_token :: "nat \<Rightarrow> ustr"
  api_reply :: "nat \<Rightarrow> tg_call \<Rightarrow> error + int"
  api_updates :: "nat \<Rightarrow> int option \<Rightarrow> error + update list"
  strftime_minutes :: "ustr \<Rightarrow> ustr option"
  date_fromisoformat :: "ustr \<Rightarrow> date option"

section \<open>The store (db.py)\<close>

text \<open>
  The three tables of \<open>init_schema\<close>, rows in insertion order.  The integers stored are
  taken to lie in the store's 64-bit range, and so are the integers handed to a statement
  as a parameter (a chat id, a lead id read from a callback, a limit): for an integer
  outside that range the driver raises \<open>OverflowError\<close> before the statement runs, and no
  definition here represents that error.
\<close>

record user_row =
  u_id :: int
  u_tg_chat_id :: "int option"
  u_token :: ustr
  u_created_at :: ustr

record client_row =
  c_id :: int
  c_user_id :: int
  c_name :: "ustr option"
  c_phone :: "ustr option"
  c_created_at :: ustr

record lead_row =
  l_id :: int
  l_user_id :: int
  l_client_id :: "int option"
  l_source :: ustr
  l_name :: "ustr option"
  l_phone :: "ustr option"
  l_text :: ustr
  l_status :: ustr
  l_created_at :: ustr
  l_tg_chat_id :: "int option"
  l_tg_message_id :: "int option"

record database =
  users :: "user_row list"
  clients :: "client_row list"
  leads :: "lead_row list"

text \<open>
  The state the program changes: the store, the calls made on the transport client
  (oldest first), the number of clock readings and the number of tokens drawn.
\<close>

record world =
  db :: database
  calls :: "tg_call list"
  clock :: nat
  drawn :: nat

definition utc_now_iso :: "env \<Rightarrow> world \<Rightarrow> ustr \<times> world" where
  "utc_now_iso e w = (clock_iso e (clock w), w\<lparr>clock := clock w + 1\<rparr>)"

text \<open>
  \<open>INTEGER PRIMARY KEY AUTOINCREMENT\<close>: one more than the largest id of the table, 1 for an
  empty table (the program deletes no row, so the largest id ever used is still present).
\<close>

definition next_id :: "int list \<Rightarrow> int" where
  "next_id ids = fold max ids 0 + 1"

section \<open>Rendering (formatting.py)\<close>

definition STATUS_EMOJI :: "ustr \<Rightarrow> ustr option" where
  "STATUS_EMOJI = map_of
     [(lit ''new'', [63743, 252, 220, 239]),
      (lit ''booked'', [8218, 250, 214]),
      (lit ''call_back'', [8218, 232, 8734]),
      (lit ''rejected'', [8218, 249, 229])]"

definition STATUS_LABEL :: "ustr \<Rightarrow> ustr option" where
  "STATUS_LABEL = map_of
     [(lit ''new'', [8211, 249, 8211, 230, 8211, 8804, 8211, 8734, 8212, 232]),
      (lit ''booked'', [8211, 243, 8211, 8734, 8211, 248, 8211, 8719, 8212, 197, 8211,
         8734, 8211, 937, 40, 8211, 8734, 41]),
      (lit ''call_back'', [8211, 252, 8211, 181, 8212, 196, 8211, 181, 8211, 8721, 8211,
         8804, 8211, 230, 8211, 937, 8211, 8719, 8212, 199, 8212, 229]),
      (lit ''rejected'', [8211, 251, 8212, 199, 8211, 8747, 8211, 8734, 8211, 8721])]"

text \<open>The placeholder of \<open>_safe\<close> for an absent or blank field.\<close>

definition placeholder :: ustr where
  "placeholder = [8218, 196, 238]"

definition safe :: "ustr option \<Rightarrow> ustr" where
  "safe v = (let s = strip (or_else v placeholder) in if s = [] then placeholder else s)"

definition format_lead_text :: "env \<Rightarrow> lead_row \<Rightarrow> ustr" where
  "format_lead_text e lead =
     (let status = l_status lead;
          emoji = (case STATUS_EMOJI status of None \<Rightarrow> [63743, 252, 236, 249] | Some m \<Rightarrow> m);
          created_at = l_created_at lead;
          created_human =
            (if created_at \<noteq> [] then
               (case strftime_minutes e (replace_char created_at 90 (lit ''+00:00'')) of
                  None \<Rightarrow> created_at
                | Some h \<Rightarrow> h)
             else []);
          label = (case STATUS_LABEL status of None \<Rightarrow> status | Some b \<Rightarrow> b);
          lines = [emoji @ [32, 8211, 243, 8211, 8734, 8212, 232, 8211, 8804, 8211, 8747,
                     8211, 8734, 32, 35] @ str_int (l_id lead) @ [32, 8218, 196, 238, 32] @ label];
          lines = (if created_human \<noteq> []
                   then lines @ [[63743, 252, 239, 237, 32] @ created_human @ lit '' (UTC)'']
                   else lines);
          lines = lines @
            [[63743, 252, 235, 167, 32] @ safe (l_name lead),
             [63743, 252, 236, 251, 32] @ safe (l_phone lead),
             [63743, 252, 236, 169, 32] @ safe (Some (l_source lead)),
             [],
             [63743, 252, 237, 168, 32] @ safe (Some (l_text lead))]
      in join [10] lines)"

definition lead_keyboard :: "int \<Rightarrow> keyboard" where
  "lead_keyboard lead_id =
     [[([8218, 250, 214, 32, 8211, 243, 8211, 8734, 8211, 248, 8211, 8719, 8212, 197, 8211,
         8734, 8211, 937],
        lit ''lead:'' @ str_int lead_id @ lit '':booked''),
       ([8218, 232, 8734, 32, 8211, 252, 8211, 181, 8212, 196, 8211, 181, 8211, 8721, 8211,
         8804, 8211, 230, 8211, 937, 8211, 8719, 8212, 199, 8212, 229],
        lit ''lead:'' @ str_int lead_id @ lit '':call_back'')],
      [([8218, 249, 229, 32, 8211, 251, 8212, 199, 8211, 8747, 8211, 8734, 8211, 8721],
        lit ''lead:'' @ str_int lead_id @ lit '':rejected'')]]"

section \<open>The transport client (telegram_api.py)\<close>

text \<open>
  Each method records its invocation.  In dry-run mode no request is made: \<open>send_message\<close>
  returns the clock's seconds, the others return at once.  Otherwise the request's outcome
  decides: an error is the \<open>TelegramApiError\<close> (or whatever else the request raised).
\<close>

record TelegramClient =
  bot_token :: ustr
  dry_run :: bool

definition send_message ::
  "env \<Rightarrow> TelegramClient \<Rightarrow> world \<Rightarrow> int \<Rightarrow> ustr \<Rightarrow> keyboard option \<Rightarrow> (error + int) \<times> world" where
  "send_message e c w chat text reply_markup =
     (let call = SendMessage chat text reply_markup;
          w1 = w\<lparr>calls := calls w @ [call]\<rparr>
      in if dry_run c then (Inr (clock_epoch e (clock w1)), w1\<lparr>clock := clock w1 + 1\<rparr>)
         else (api_reply e (length (calls w)) call, w1))"

definition edit_message_text ::
  "env \<Rightarrow> TelegramClient \<Rightarrow> world \<Rightarrow> int \<Rightarrow> int \<Rightarrow> ustr \<Rightarrow> keyboard option \<Rightarrow> (error + unit) \<times> world" where
  "edit_message_text e c w chat message text reply_markup =
     (let call = EditMessageText chat message text reply_markup;
          w1 = w\<lparr>calls := calls w @ [call]\<rparr>
      in if dry_run c then (Inr (), w1)
         else (case api_reply e (length (calls w)) call of
                 Inl err \<Rightarrow> (Inl err, w1)
               | Inr _ \<Rightarrow> (Inr (), w1)))"

definition answer_callback_query ::
  "env \<Rightarrow> TelegramClient \<Rightarrow> world \<Rightarrow> ustr \<Rightarrow> (error + unit) \<times> world" where
  "answer_callback_query e c w callback_query_id =
     (let call = AnswerCallbackQuery callback_query_id;
          w1 = w\<lparr>calls := calls w @ [call]\<rparr>
      in if dry_run c then (Inr (), w1)
         else (case api_reply e (length (calls w)) call of
                 Inl err \<Rightarrow> (Inl err, w1)
               | Inr _ \<Rightarrow> (Inr (), w1)))"

definition get_updates ::
  "env \<Rightarrow> TelegramClient \<Rightarrow> world \<Rightarrow> int option \<Rightarrow> int \<Rightarrow> (error + update list) \<times> world" where
  "get_updates e c w offset timeout_sec =
     (let call = GetUpdates offset timeout_sec;
          w1 = w\<lparr>calls := calls w @ [call]\<rparr>
      in if dry_run c then (Inr [], w1)
         else (api_updates e (length (calls w)) offset, w1))"


section \<open>Queries and updates (db.py)\<close>

text \<open>
  \<open>LIKE\<close> as the store evaluates it: \<open>%\<close> matches any run of characters, \<open>_\<close> any one
  character, and ASCII letters match without regard to case.
\<close>

definition ascii_lower :: "nat \<Rightarrow> nat" where
  "ascii_lower c = (if 65 \<le> c \<and> c \<le> 90 then c + 32 else c)"

fun sql_like :: "ustr \<Rightarrow> ustr \<Rightarrow> bool" where
  "sql_like [] s = (s = [])"
| "sql_like (p # ps) s =
     (if p = 37 then
        (sql_like ps s \<or> (case s of [] \<Rightarrow> False | _ # t \<Rightarrow> sql_like (p # ps) t))
      else (case s of
              [] \<Rightarrow> False
            | c # t \<Rightarrow> (p = 95 \<or> ascii_lower p = ascii_lower c) \<and> sql_like ps t))"

text \<open>\<open>LIMIT n\<close>: a negative \<open>n\<close> is no limit.\<close>

definition sql_limit :: "int \<Rightarrow> 'a list \<Rightarrow> 'a list" where
  "sql_limit n rows = (if n < 0 then rows else take (nat n) rows)"

text \<open>\<open>COALESCE(x, y)\<close>.\<close>

definition coalesce :: "'a option \<Rightarrow> 'a option \<Rightarrow> 'a option" where
  "coalesce x y = (case x of None \<Rightarrow> y | Some _ \<Rightarrow> x)"

text \<open>\<open>day.isoformat()\<close>: \<open>YYYY-MM-DD\<close>.\<close>

definition zfill :: "nat \<Rightarrow> ustr \<Rightarrow> ustr" where
  "zfill n s = replicate (n - length s) 48 @ s"

definition isoformat :: "date \<Rightarrow> ustr" where
  "isoformat d = zfill 4 (str_nat (year d)) @ [45] @ zfill 2 (str_nat (month d)) @ [45] @
     zfill 2 (str_nat (day d))"

text \<open>
  The loop of \<open>get_or_create_user_by_chat_id\<close> that draws tokens until one is not in the
  table: the token and the number of tokens drawn after it.  \<open>None\<close> is the loop that never
  ends.
\<close>

partial_function (option) gen_unique_token :: "env \<Rightarrow> database \<Rightarrow> nat \<Rightarrow> (ustr \<times> nat) option" where
  "gen_unique_token e d k =
     (if find (\<lambda>u. u_token u = secrets_token e k) (users d) \<noteq> None
      then gen_unique_token e d (k + 1)
      else Some (secrets_token e k, k + 1))"

declare gen_unique_token.simps [code]

definition get_or_create_user_by_chat_id ::
  "env \<Rightarrow> world \<Rightarrow> int \<Rightarrow> ((error + user_row) \<times> world) option" where
  "get_or_create_user_by_chat_id e w tg_chat_id =
     (case find (\<lambda>u. u_tg_chat_id u = Some tg_chat_id) (users (db w)) of
        Some row \<Rightarrow> Some (Inr row, w)
      | None \<Rightarrow>
          (case gen_unique_token e (db w) (drawn w) of
             None \<Rightarrow> None
           | Some (token, k) \<Rightarrow>
               (let (now, w1) = utc_now_iso e (w\<lparr>drawn := k\<rparr>);
                    d = db w1
                in if find (\<lambda>u. u_tg_chat_id u = Some tg_chat_id \<or> u_token u = token) (users d) \<noteq> None
                   then Some (Inl IntegrityError, w1)
                   else
                     (let row = \<lparr>u_id = next_id (map u_id (users d)),
                                 u_tg_chat_id = Some tg_chat_id,
                                 u_token = token,
                                 u_created_at = now\<rparr>;
                          w2 = w1\<lparr>db := d\<lparr>users := users d @ [row]\<rparr>\<rparr>
                      in (case find (\<lambda>u. u_tg_chat_id u = Some tg_chat_id) (users (db w2)) of
                            None \<Rightarrow> Some (Inl TypeError, w2)
                          | Some r \<Rightarrow> Some (Inr r, w2))))))"

definition get_user_by_token :: "database \<Rightarrow> ustr \<Rightarrow> user_row option" where
  "get_user_by_token d token = find (\<lambda>u. u_token u = token) (users d)"

text \<open>
  The newest client of a tenant with a phone:
  \<open>SELECT id ... WHERE user_id = ? AND phone = ? ORDER BY id DESC LIMIT 1\<close>.
\<close>

definition newest_client :: "database \<Rightarrow> int \<Rightarrow> ustr \<Rightarrow> int option" where
  "newest_client d user_id phone =
     (case filter (\<lambda>c. c_user_id c = user_id \<and> c_phone c = Some phone) (clients d) of
        [] \<Rightarrow> None
      | c # cs \<Rightarrow> Some (fold max (map c_id cs) (c_id c)))"

text \<open>\<open>UPDATE clients SET name = COALESCE(?, name) WHERE id = ?\<close>.\<close>

definition update_client_name :: "database \<Rightarrow> ustr option \<Rightarrow> int \<Rightarrow> database" where
  "update_client_name d name cid =
     d\<lparr>clients := map (\<lambda>c. if c_id c = cid then c\<lparr>c_name := coalesce name (c_name c)\<rparr> else c)
                       (clients d)\<rparr>"

definition upsert_client ::
  "env \<Rightarrow> world \<Rightarrow> int \<Rightarrow> ustr option \<Rightarrow> ustr option \<Rightarrow> (error + int option) \<times> world" where
  "upsert_client e w user_id name phone =
     (if \<not> (truthy name \<or> truthy phone) then (Inr None, w)
      else
        (case (case phone of
                 None \<Rightarrow> None
               | Some ph \<Rightarrow> if ph = [] then None else newest_client (db w) user_id ph) of
           Some cid \<Rightarrow>
             (if truthy name
              then (Inr (Some cid), w\<lparr>db := update_client_name (db w) name cid\<rparr>)
              else (Inr (Some cid), w))
         | None \<Rightarrow>
             (let (now, w1) = utc_now_iso e w;
                  d = db w1
              in if user_id \<notin> set (map u_id (users d)) then (Inl IntegrityError, w1)
                 else
                   (let cid = next_id (map c_id (clients d));
                        row = \<lparr>c_id = cid, c_user_id = user_id, c_name = name,
                               c_phone = phone, c_created_at = now\<rparr>
                    in (Inr (Some cid), w1\<lparr>db := d\<lparr>clients := clients d @ [row]\<rparr>\<rparr>)))))"

definition create_lead ::
  "env \<Rightarrow> world \<Rightarrow> int \<Rightarrow> ustr \<Rightarrow> ustr \<Rightarrow> ustr option \<Rightarrow> ustr option \<Rightarrow> int option \<Rightarrow> ustr \<Rightarrow> int option
     \<Rightarrow> (error + int) \<times> world" where
  "create_lead e w user_id source text name phone client_id status tg_chat_id =
     (let (now, w1) = utc_now_iso e w;
          d = db w1
      in if user_id \<notin> set (map u_id (users d)) \<or>
            (case client_id of None \<Rightarrow> False | Some cid \<Rightarrow> cid \<notin> set (map c_id (clients d)))
         then (Inl IntegrityError, w1)
         else
           (let lid = next_id (map l_id (leads d));
                row = \<lparr>l_id = lid, l_user_id = user_id, l_client_id = client_id,
                       l_source = source, l_name = name, l_phone = phone, l_text = text,
                       l_status = status, l_created_at = now, l_tg_chat_id = tg_chat_id,
                       l_tg_message_id = None\<rparr>
            in (Inr lid, w1\<lparr>db := d\<lparr>leads := leads d @ [row]\<rparr>\<rparr>)))"

definition set_lead_status :: "database \<Rightarrow> int \<Rightarrow> ustr \<Rightarrow> database" where
  "set_lead_status d lead_id status =
     d\<lparr>leads := map (\<lambda>l. if l_id l = lead_id then l\<lparr>l_status := status\<rparr> else l) (leads d)\<rparr>"

definition set_lead_telegram_message :: "database \<Rightarrow> int \<Rightarrow> int \<Rightarrow> int \<Rightarrow> database" where
  "set_lead_telegram_message d lead_id tg_message_id tg_chat_id =
     d\<lparr>leads := map (\<lambda>l. if l_id l = lead_id
                           then l\<lparr>l_tg_message_id := Some tg_message_id,
                                  l_tg_chat_id := Some tg_chat_id\<rparr>
                           else l) (leads d)\<rparr>"

definition get_lead_by_id :: "database \<Rightarrow> int \<Rightarrow> lead_row option" where
  "get_lead_by_id d lead_id = find (\<lambda>l. l_id l = lead_id) (leads d)"

definition list_leads_for_day :: "database \<Rightarrow> int \<Rightarrow> date \<Rightarrow> lead_row list" where
  "list_leads_for_day d user_id dy =
     sort_key l_created_at
       (filter (\<lambda>l. l_user_id l = user_id \<and> sql_like (isoformat dy @ [37]) (l_created_at l))
          (leads d))"

definition list_recent_leads :: "database \<Rightarrow> int \<Rightarrow> int \<Rightarrow> lead_row list" where
  "list_recent_leads d user_id limit =
     sql_limit limit (rev (sort_key l_id (filter (\<lambda>l. l_user_id l = user_id) (leads d))))"

definition find_leads_by_client :: "database \<Rightarrow> int \<Rightarrow> ustr \<Rightarrow> int \<Rightarrow> lead_row list" where
  "find_leads_by_client d user_id query limit =
     (let q = [37] @ strip query @ [37]
      in sql_limit limit
           (rev (sort_key l_id
              (filter (\<lambda>l. l_user_id l = user_id \<and>
                           (sql_like q (or_else (l_name l) []) \<or>
                            sql_like q (or_else (l_phone l) []) \<or>
                            sql_like q (l_text l)))
                 (leads d)))))"

section \<open>The webhook and the diagnostic endpoint (server.py)\<close>

record Settings =
  s_bot_token :: ustr
  s_telegram_dry_run :: bool

record WebhookPayload =
  p_source :: ustr
  p_text :: ustr
  p_name :: "ustr option"
  p_phone :: "ustr option"

text \<open>\<open>_tg()\<close>: without a bot token the client is a dry-run one.\<close>

definition tg :: "Settings \<Rightarrow> TelegramClient" where
  "tg settings =
     (if s_bot_token settings = [] then \<lparr>bot_token = [], dry_run = True\<rparr>
      else \<lparr>bot_token = s_bot_token settings, dry_run = s_telegram_dry_run settings\<rparr>)"

text \<open>\<open>Inr lead_id\<close> is the response \<open>{"ok": True, "lead_id": lead_id}\<close>.\<close>

definition webhook ::
  "env \<Rightarrow> Settings \<Rightarrow> world \<Rightarrow> ustr \<Rightarrow> WebhookPayload \<Rightarrow> (error + int) \<times> world" where
  "webhook e settings w token payload =
     (case get_user_by_token (db w) token of
        None \<Rightarrow> (Inl (HTTPException 404 (lit ''Unknown token'')), w)
      | Some user \<Rightarrow>
          (case upsert_client e w (u_id user) (p_name payload) (p_phone payload) of
             (Inl err, w1) \<Rightarrow> (Inl err, w1)
           | (Inr client_id, w1) \<Rightarrow>
               (case create_lead e w1 (u_id user) (p_source payload) (p_text payload)
                       (p_name payload) (p_phone payload) client_id (lit ''new'')
                       (u_tg_chat_id user) of
                  (Inl err, w2) \<Rightarrow> (Inl err, w2)
                | (Inr lead_id, w2) \<Rightarrow>
                    (case u_tg_chat_id user of
                       None \<Rightarrow> (Inr lead_id, w2)
                     | Some chat \<Rightarrow>
                         if chat = 0 then (Inr lead_id, w2)
                         else
                           (case get_lead_by_id (db w2) lead_id of
                              None \<Rightarrow> (Inr lead_id, w2)
                            | Some lead \<Rightarrow>
                                (case send_message e (tg settings) w2 chat
                                        (format_lead_text e lead) (Some (lead_keyboard lead_id)) of
                                   (Inl err, w3) \<Rightarrow> (Inl err, w3)
                                 | (Inr msg_id, w3) \<Rightarrow>
                                     (Inr lead_id,
                                      w3\<lparr>db := set_lead_telegram_message (db w3) lead_id msg_id chat\<rparr>)))))))"

text \<open>
  \<open>Inr leads\<close> is the response \<open>{"ok": True, "leads": leads}\<close>; the query parameter
  \<open>limit\<close> is 20 when the request leaves it out.
\<close>

definition debug_list_leads :: "world \<Rightarrow> ustr \<Rightarrow> int option \<Rightarrow> error + lead_row list" where
  "debug_list_leads w token limit =
     (case get_user_by_token (db w) token of
        None \<Rightarrow> Inl (HTTPException 404 (lit ''Unknown token''))
      | Some user \<Rightarrow>
          Inr (list_recent_leads (db w) (u_id user) (case limit of None \<Rightarrow> 20 | Some n \<Rightarrow> n)))"


section \<open>Commands, inline actions and the poll loop (bot.py)\<close>

text \<open>
  \<open>_parse_command\<close>: the first word of the stripped line up to an \<open>@\<close>, and what follows
  the white space after that word.  \<open>parts[0]\<close> of a blank line is the \<open>IndexError\<close>.
\<close>

definition parse_command :: "ustr \<Rightarrow> error + (ustr \<times> ustr)" where
  "parse_command text =
     (let t = dropWhile isspace (strip text);
          word = takeWhile (\<lambda>c. \<not> isspace c) t;
          rest = dropWhile isspace (dropWhile (\<lambda>c. \<not> isspace c) t)
      in if t = [] then Inl IndexError
         else Inr (takeWhile (\<lambda>c. c \<noteq> 64) word, rest))"

definition render_lead_list :: "lead_row list \<Rightarrow> ustr" where
  "render_lead_list ls =
     (if ls = [] then [1053, 1080, 1095, 1077, 1075, 1086, 32, 1085, 1077, 32, 1085,
                       1072, 1081, 1076, 1077, 1085, 1086, 46]
      else join [10]
        (map (\<lambda>l.
           (let created = l_created_at l;
                created_short = (if 16 \<le> length created then take 5 (drop 11 created) else created)
            in [35] @ str_int (l_id l) @ lit '' ['' @ l_status l @ lit ''] '' @ created_short @
               [32, 8212, 32] @ or_else (l_name l) [8212] @
               [32, 8212, 32] @ or_else (Some (l_source l)) [8212]))
         ls))"

text \<open>\<open>client.send_message(chat, text)\<close> followed by \<open>return\<close>.\<close>

definition reply :: "env \<Rightarrow> TelegramClient \<Rightarrow> world \<Rightarrow> int \<Rightarrow> ustr \<Rightarrow> (error + unit) \<times> world" where
  "reply e c w chat text =
     (case send_message e c w chat text None of
        (Inl err, w1) \<Rightarrow> (Inl err, w1)
      | (Inr _, w1) \<Rightarrow> (Inr (), w1))"

text \<open>The texts the bot answers with.\<close>

definition text_only_msg :: ustr where
  "text_only_msg =
    [1055, 1086, 1085, 1080, 1084, 1072, 1102, 32, 1090, 1086, 1083, 1100, 1082, 1086,
     32, 1090, 1077, 1082, 1089, 1090, 1086, 1074, 1099, 1077, 32, 1089, 1086, 1086,
     1073, 1097, 1077, 1085, 1080, 1103, 46, 32, 1050, 1086, 1084, 1072, 1085, 1076,
     1099, 58, 32, 47, 104, 101, 108, 112]"

definition write_help_msg :: ustr where
  "write_help_msg =
    [1053, 1072, 1087, 1080, 1096, 1080, 32, 47, 104, 101, 108, 112, 44, 32, 1095, 1090,
     1086, 1073, 1099, 32, 1091, 1074, 1080, 1076, 1077, 1090, 1100, 32, 1082, 1086,
     1084, 1072, 1085, 1076, 1099, 46]"

definition start_msg :: "ustr \<Rightarrow> ustr" where
  "start_msg token =
    [1055, 1088, 1080, 1074, 1077, 1090, 33, 32, 1071, 32, 1089, 1086, 1073, 1077, 1088,
     1091, 32, 1074, 1089, 1077, 32, 1079, 1072, 1103, 1074, 1082, 1080, 32, 1074, 32,
     1086, 1076, 1080, 1085, 32, 84, 101, 108, 101, 103, 114, 97, 109, 46, 10, 10, 1058,
     1074, 1086, 1081, 32, 1090, 1086, 1082, 1077, 1085, 32, 40, 1089, 1077, 1082, 1088,
     1077, 1090, 1085, 1099, 1081, 41, 58, 10, 96] @ token @
    [96, 10, 10, 87, 101, 98, 104, 111, 111, 107, 32, 1076, 1083, 1103, 32, 1080, 1085,
     1090, 1077, 1075, 1088, 1072, 1090, 1086, 1088, 1072, 32, 40, 77, 97, 107, 101, 47,
     65, 108, 98, 97, 116, 111, 47, 1089, 1074, 1086, 1081, 32, 1089, 1082, 1088, 1080,
     1087, 1090, 41, 58, 10, 80, 79, 83, 84, 32, 47, 119, 101, 98, 104, 111, 111, 107,
     47] @ token @
    [10, 74, 83, 79, 78, 32, 1087, 1088, 1080, 1084, 1077, 1088, 58, 10, 123, 34, 115,
     111, 117, 114, 99, 101, 34, 58, 34, 105, 110, 115, 116, 97, 103, 114, 97, 109, 34,
     44, 34, 110, 97, 109, 101, 34, 58, 34, 1040, 1085, 1085, 1072, 34, 44, 34, 112,
     104, 111, 110, 101, 34, 58, 34, 43, 51, 55, 49, 46, 46, 46, 34, 44, 34, 116, 101,
     120, 116, 34, 58, 34, 1061, 1086, 1095, 1091, 32, 1079, 1072, 1087, 1080, 1089,
     1072, 1090, 1100, 1089, 1103, 34, 125, 10, 10, 1050, 1086, 1084, 1072, 1085, 1076,
     1099, 58, 32, 47, 104, 101, 108, 112]"

definition help_msg :: ustr where
  "help_msg =
    [1050, 1086, 1084, 1072, 1085, 1076, 1099, 58, 10, 47, 116, 111, 107, 101, 110, 32,
     8212, 32, 1087, 1086, 1082, 1072, 1079, 1072, 1090, 1100, 32, 1090, 1086, 1082,
     1077, 1085, 10, 47, 116, 111, 100, 97, 121, 32, 8212, 32, 1079, 1072, 1103, 1074,
     1082, 1080, 32, 1079, 1072, 32, 1089, 1077, 1075, 1086, 1076, 1085, 1103, 32, 40,
     85, 84, 67, 41, 10, 47, 100, 97, 121, 32, 89, 89, 89, 89, 45, 77, 77, 45, 68, 68,
     32, 8212, 32, 1079, 1072, 1103, 1074, 1082, 1080, 32, 1079, 1072, 32, 1076, 1072,
     1090, 1091, 32, 40, 85, 84, 67, 41, 10, 47, 108, 97, 115, 116, 32, 78, 32, 8212,
     32, 1087, 1086, 1089, 1083, 1077, 1076, 1085, 1080, 1077, 32, 78, 32, 1079, 1072,
     1103, 1074, 1086, 1082, 10, 47, 102, 105, 110, 100, 32, 1058, 1045, 1050, 1057,
     1058, 32, 8212, 32, 1087, 1086, 1080, 1089, 1082, 32, 1087, 1086, 32, 1080, 1084,
     1077, 1085, 1080, 47, 1090, 1077, 1083, 1077, 1092, 1086, 1085, 1091, 47, 1090,
     1077, 1082, 1089, 1090, 1091, 10]"

definition token_msg :: "ustr \<Rightarrow> ustr" where
  "token_msg token = [1058, 1086, 1082, 1077, 1085, 58, 32] @ token"

definition day_format_msg :: ustr where
  "day_format_msg =
    [1060, 1086, 1088, 1084, 1072, 1090, 58, 32, 47, 100, 97, 121, 32, 50, 48, 50, 54,
     45, 48, 49, 45, 49, 51]"

definition last_format_msg :: ustr where
  "last_format_msg =
    [1060, 1086, 1088, 1084, 1072, 1090, 58, 32, 47, 108, 97, 115, 116, 32, 50, 48]"

definition find_format_msg :: ustr where
  "find_format_msg =
    [1060, 1086, 1088, 1084, 1072, 1090, 58, 32, 47, 102, 105, 110, 100, 32, 1040, 1085,
     1085, 1072]"

definition unknown_command_msg :: ustr where
  "unknown_command_msg =
    [1053, 1077, 1080, 1079, 1074, 1077, 1089, 1090, 1085, 1072, 1103, 32, 1082, 1086,
     1084, 1072, 1085, 1076, 1072, 46, 32, 47, 104, 101, 108, 112]"

text \<open>
  The commands of \<open>handle_message\<close> that need the tenant's row: \<open>/today\<close>, \<open>/day\<close>,
  \<open>/last\<close>, \<open>/find\<close>, and the answer to anything else.
\<close>

definition handle_user_command ::
  "env \<Rightarrow> TelegramClient \<Rightarrow> world \<Rightarrow> int \<Rightarrow> int \<Rightarrow> ustr \<Rightarrow> ustr \<Rightarrow> (error + unit) \<times> world" where
  "handle_user_command e c w chat user_id cmd arg =
     (if cmd = lit ''/today'' then
        (let today = clock_today e (clock w);
             w1 = w\<lparr>clock := clock w + 1\<rparr>
         in reply e c w1 chat (render_lead_list (list_leads_for_day (db w1) user_id today)))
      else if cmd = lit ''/day'' then
        (case date_fromisoformat e (strip arg) of
           None \<Rightarrow> reply e c w chat day_format_msg
         | Some d \<Rightarrow> reply e c w chat (render_lead_list (list_leads_for_day (db w) user_id d)))
      else if cmd = lit ''/last'' then
        (case py_int (if strip arg = [] then lit ''20'' else strip arg) of
           None \<Rightarrow> reply e c w chat last_format_msg
         | Some n \<Rightarrow>
             reply e c w chat
               (render_lead_list (list_recent_leads (db w) user_id (max 1 (min n 100)))))
      else if cmd = lit ''/find'' then
        (let q = strip arg
         in if q = [] then reply e c w chat find_format_msg
            else reply e c w chat (render_lead_list (find_leads_by_client (db w) user_id q 50)))
      else reply e c w chat unknown_command_msg)"

text \<open>\<open>None\<close> is a call that never returns (the token loop of the registry).\<close>

definition handle_message ::
  "env \<Rightarrow> TelegramClient \<Rightarrow> world \<Rightarrow> tg_message \<Rightarrow> ((error + unit) \<times> world) option" where
  "handle_message e c w message =
     (case (case msg_chat message of None \<Rightarrow> None | Some ch \<Rightarrow> chat_id ch) of
        None \<Rightarrow> Some (Inr (), w)
      | Some chat \<Rightarrow>
          (let text = strip (or_else (msg_text message) [])
           in if text = [] then Some (reply e c w chat text_only_msg)
              else if \<not> startswith text (lit ''/'') then Some (reply e c w chat write_help_msg)
              else
                (case parse_command text of
                   Inl err \<Rightarrow> Some (Inl err, w)
                 | Inr (cmd, arg) \<Rightarrow>
                     if cmd = lit ''/start'' then
                       (case get_or_create_user_by_chat_id e w chat of
                          None \<Rightarrow> None
                        | Some (Inl err, w1) \<Rightarrow> Some (Inl err, w1)
                        | Some (Inr user, w1) \<Rightarrow>
                            Some (reply e c w1 chat (start_msg (u_token user))))
                     else if cmd = lit ''/help'' then Some (reply e c w chat help_msg)
                     else if cmd = lit ''/token'' then
                       (case get_or_create_user_by_chat_id e w chat of
                          None \<Rightarrow> None
                        | Some (Inl err, w1) \<Rightarrow> Some (Inl err, w1)
                        | Some (Inr user, w1) \<Rightarrow>
                            Some (reply e c w1 chat (token_msg (u_token user))))
                     else
                       (case get_or_create_user_by_chat_id e w chat of
                          None \<Rightarrow> None
                        | Some (Inl err, w1) \<Rightarrow> Some (Inl err, w1)
                        | Some (Inr user, w1) \<Rightarrow>
                            Some (handle_user_command e c w1 chat (u_id user) cmd arg)))))"

definition handle_callback_query ::
  "env \<Rightarrow> TelegramClient \<Rightarrow> world \<Rightarrow> callback_query \<Rightarrow> (error + unit) \<times> world" where
  "handle_callback_query e c w cq =
     (let data = strip (or_else (cq_data cq) []);
          chat = (case cq_message cq of
                    None \<Rightarrow> None
                  | Some m \<Rightarrow> (case msg_chat m of None \<Rightarrow> None | Some ch \<Rightarrow> chat_id ch));
          message = (case cq_message cq of None \<Rightarrow> None | Some m \<Rightarrow> msg_message_id m)
      in case (case cq_id cq of
                 None \<Rightarrow> (Inr (), w)
               | Some i \<Rightarrow> if i = [] then (Inr (), w) else answer_callback_query e c w i) of
           (Inl err, w1) \<Rightarrow> (Inl err, w1)
         | (Inr _, w1) \<Rightarrow>
             if \<not> (startswith data (lit ''lead:'') \<and> truthy_int chat \<and> truthy_int message)
             then (Inr (), w1)
             else
               (let parts = split_sep data 58
                in if length parts \<noteq> 3 then (Inr (), w1)
                   else
                     (case py_int (parts ! 1) of
                        None \<Rightarrow> (Inr (), w1)
                      | Some lead_id \<Rightarrow>
                          (let status = parts ! 2
                           in if status \<notin> set [lit ''booked'', lit ''call_back'',
                                                lit ''rejected'', lit ''new'']
                              then (Inr (), w1)
                              else
                                (let w2 = w1\<lparr>db := set_lead_status (db w1) lead_id status\<rparr>
                                 in case get_lead_by_id (db w2) lead_id of
                                      None \<Rightarrow> (Inr (), w2)
                                    | Some lead \<Rightarrow>
                                        edit_message_text e c w2
                                          (case chat of None \<Rightarrow> 0 | Some i \<Rightarrow> i)
                                          (case message of None \<Rightarrow> 0 | Some i \<Rightarrow> i)
                                          (format_lead_text e lead)
                                          (Some (lead_keyboard lead_id)))))))"

text \<open>
  The body of the \<open>for\<close> loop of \<open>run\<close> after the cursor is set: a message goes to
  \<open>handle_message\<close>, else a callback query to \<open>handle_callback_query\<close>, and an update with
  neither is passed over.
\<close>

definition handle_update ::
  "env \<Rightarrow> TelegramClient \<Rightarrow> world \<Rightarrow> update \<Rightarrow> ((error + unit) \<times> world) option" where
  "handle_update e c w u =
     (case upd_message u of
        Some m \<Rightarrow> handle_message e c w m
      | None \<Rightarrow>
          (case upd_callback_query u of
             Some cq \<Rightarrow> Some (handle_callback_query e c w cq)
           | None \<Rightarrow> Some (Inr (), w)))"

text \<open>
  The \<open>for\<close> loop over a fetched batch, with the cursor: each turn first sets the cursor to
  one past the update's id (0 for a missing id), then handles the update; the first handler
  that raises ends the loop.
\<close>

fun process_updates ::
  "env \<Rightarrow> TelegramClient \<Rightarrow> world \<Rightarrow> int option \<Rightarrow> update list
     \<Rightarrow> ((error + unit) \<times> world \<times> int option) option" where
  "process_updates e c w offset [] = Some (Inr (), w, offset)"
| "process_updates e c w offset (u # us) =
     (let offset1 = Some ((case update_id u of None \<Rightarrow> 0 | Some i \<Rightarrow> i) + 1)
      in case handle_update e c w u of
           None \<Rightarrow> None
         | Some (Inl err, w1) \<Rightarrow> Some (Inl err, w1, offset1)
         | Some (Inr _, w1) \<Rightarrow> process_updates e c w1 offset1 us)"

text \<open>
  One turn of the \<open>while True\<close> loop of \<open>run\<close>: fetch a batch at the cursor and process it;
  an exception of either is caught and logged, and the loop goes on.
\<close>

definition poll_once ::
  "env \<Rightarrow> TelegramClient \<Rightarrow> world \<times> int option \<Rightarrow> (world \<times> int option) option" where
  "poll_once e c st =
     (case st of (w, offset) \<Rightarrow>
        (case get_updates e c w offset 30 of
           (Inl err, w1) \<Rightarrow> Some (w1, offset)
         | (Inr updates, w1) \<Rightarrow>
             (case process_updates e c w1 offset updates of
                None \<Rightarrow> None
              | Some (_, w2, offset1) \<Rightarrow> Some (w2, offset1))))"

text \<open>
  \<open>run\<close>, cut after \<open>n\<close> turns of its loop (the loop itself has no exit): the state and the
  cursor then.
\<close>

fun run_turns ::
  "nat \<Rightarrow> env \<Rightarrow> TelegramClient \<Rightarrow> world \<times> int option \<Rightarrow> (world \<times> int option) option" where
  "run_turns 0 e c st = Some st"
| "run_turns (Suc n) e c st =
     (case poll_once e c st of
        None \<Rightarrow> None
      | Some st1 \<Rightarrow> run_turns n e c st1)"

definition run :: "nat \<Rightarrow> env \<Rightarrow> Settings \<Rightarrow> world \<Rightarrow> (error + world \<times> int option) option" where
  "run n e settings w =
     (if s_bot_token settings = [] \<and> \<not> s_telegram_dry_run settings then Some (Inl SystemExit)
      else
        (case run_turns n e \<lparr>bot_token = s_bot_token settings,
                              dry_run = s_telegram_dry_run settings\<rparr> (w, None) of
           None \<Rightarrow> None
         | Some st \<Rightarrow> Some (Inr st)))"

section \<open>Vocabulary of the statements\<close>

text \<open>
  What a callback query carries, read the way \<open>handle_callback_query\<close> reads it: the data
  after \<open>strip\<close>; the origin, which is the chat id and the message id of the message the
  button sits on, when both are present and not zero; and the lead id and status of the
  token \<open>lead:<id>:<status>\<close>, when the data passes the handler's checks.
\<close>

definition cq_token_text :: "callback_query \<Rightarrow> ustr" where
  "cq_token_text cq = strip (or_else (cq_data cq) [])"

definition cq_origin :: "callback_query \<Rightarrow> (int \<times> int) option" where
  "cq_origin cq =
     (case cq_message cq of
        None \<Rightarrow> None
      | Some m \<Rightarrow>
          (case msg_chat m of
             None \<Rightarrow> None
           | Some ch \<Rightarrow>
               (case chat_id ch of
                  None \<Rightarrow> None
                | Some chat \<Rightarrow>
                    (case msg_message_id m of
                       None \<Rightarrow> None
                     | Some message \<Rightarrow>
                         if chat = 0 \<or> message = 0 then None else Some (chat, message)))))"

definition callback_token :: "ustr \<Rightarrow> (int \<times> ustr) option" where
  "callback_token data =
     (if \<not> startswith data (lit ''lead:'') then None
      else
        (let parts = split_sep data 58
         in if length parts \<noteq> 3 then None
            else
              (case py_int (parts ! 1) of
                 None \<Rightarrow> None
               | Some lead_id \<Rightarrow>
                   if parts ! 2 \<notin> set [lit ''booked'', lit ''call_back'', lit ''rejected'',
                                         lit ''new'']
                   then None
                   else Some (lead_id, parts ! 2))))"


text \<open>
  The acknowledgment step of the handler: the calls it adds (one, when the callback has a
  non-empty id) and whether its request raises.
\<close>

definition ack_calls :: "callback_query \<Rightarrow> tg_call list" where
  "ack_calls cq =
     (case cq_id cq of
        None \<Rightarrow> []
      | Some i \<Rightarrow> if i = [] then [] else [AnswerCallbackQuery i])"

definition ack_error :: "env \<Rightarrow> TelegramClient \<Rightarrow> world \<Rightarrow> callback_query \<Rightarrow> error option" where
  "ack_error e c w cq =
     (case cq_id cq of
        None \<Rightarrow> None
      | Some i \<Rightarrow>
          if i = [] \<or> dry_run c then None
          else (case api_reply e (length (calls w)) (AnswerCallbackQuery i) of
                  Inl err \<Rightarrow> Some err
                | Inr _ \<Rightarrow> None))"

text \<open>The chat and message an edit call is aimed at; \<open>None\<close> for any other call.\<close>

fun edit_target :: "tg_call \<Rightarrow> (int \<times> int) option" where
  "edit_target (EditMessageText chat message text reply_markup) = Some (chat, message)"
| "edit_target (SendMessage chat text reply_markup) = None"
| "edit_target (AnswerCallbackQuery i) = None"
| "edit_target (GetUpdates offset timeout_sec) = None"

text \<open>The targets of the edit calls among the calls made from state \<open>w\<close> to state \<open>w'\<close>.\<close>

definition edits_between :: "world \<Rightarrow> world \<Rightarrow> (int \<times> int) list" where
  "edits_between w w' = List.map_filter edit_target (drop (length (calls w)) (calls w'))"


section \<open>Example stores, environments and events\<close>

text \<open>
  Callback queries: one pressed on message 5 of chat 999 and one on the lead's own message,
  both carrying \<open>lead:42:booked\<close>; and one without a callback id whose data has two
  segments.
\<close>

definition ex_cq_other :: callback_query where
  "ex_cq_other = \<lparr>cq_id = Some (lit ''cq1''), cq_data = Some (lit ''lead:42:booked''),
     cq_message = Some \<lparr>msg_chat = Some \<lparr>chat_id = Some 999\<rparr>, msg_message_id = Some 5,
       msg_text = None\<rparr>\<rparr>"

definition ex_cq_bound :: callback_query where
  "ex_cq_bound = \<lparr>cq_id = Some (lit ''cq1''), cq_data = Some (lit ''lead:42:booked''),
     cq_message = Some \<lparr>msg_chat = Some \<lparr>chat_id = Some 777\<rparr>, msg_message_id = Some 111,
       msg_text = None\<rparr>\<rparr>"


text \<open>A batch of two callback updates, numbered 10 and 11.\<close>

definition ex_batch :: "update list" where
  "ex_batch = [\<lparr>update_id = Some 10, upd_message = None, upd_callback_query = Some ex_cq_bound\<rparr>,
               \<lparr>update_id = Some 11, upd_message = None, upd_callback_query = Some ex_cq_bound\<rparr>]"

text \<open>
  A source of tokens that gives \<open>t\<close>, \<open>t1\<close>, \<open>t11\<close>, ...; a transport whose polls
  return the batch above and whose requests succeed (the reply to the \<open>k\<close>-th call
  carries the message id \<open>500 + k\<close>), one whose requests other than polls all fail, a
  live client, and a store with two tenants, bound to the chats 777 and 999, and one lead,
  number 42, of the first tenant, bound to message 111 of chat 777.
\<close>

definition ex_env :: env where
  "ex_env = \<lparr>clock_iso = (\<lambda>k. lit ''2026-01-13T10:20:30+00:00''),
     clock_today = (\<lambda>k. \<lparr>year = 2026, month = 1, day = 13\<rparr>),
     clock_epoch = (\<lambda>k. 1768299630),
     secrets_token = (\<lambda>k. 116 # replicate k 49),
     api_reply = (\<lambda>k call. Inr (500 + int k)),
     api_updates = (\<lambda>k offset. Inr ex_batch),
     strftime_minutes = (\<lambda>s. Some (take 10 s @ [32] @ take 5 (drop 11 s))),
     date_fromisoformat = (\<lambda>s. None)\<rparr>"


definition ex_client :: TelegramClient where
  "ex_client = \<lparr>bot_token = lit ''bot'', dry_run = False\<rparr>"

definition ex_settings :: Settings where
  "ex_settings = \<lparr>s_bot_token = lit ''bot'', s_telegram_dry_run = False\<rparr>"

definition ex_user :: user_row where
  "ex_user = \<lparr>u_id = 1, u_tg_chat_id = Some 777, u_token = lit ''t1'',
     u_created_at = lit ''2026-01-01T00:00:00+00:00''\<rparr>"

definition ex_user2 :: user_row where
  "ex_user2 = \<lparr>u_id = 2, u_tg_chat_id = Some 999, u_token = lit ''t2'',
     u_created_at = lit ''2026-01-02T00:00:00+00:00''\<rparr>"

definition ex_lead :: lead_row where
  "ex_lead = \<lparr>l_id = 42, l_user_id = 1, l_client_id = None, l_source = lit ''whatsapp'',
     l_name = None, l_phone = None, l_text = lit ''test'', l_status = lit ''new'',
     l_created_at = lit ''2026-01-13T09:00:00+00:00'', l_tg_chat_id = Some 777,
     l_tg_message_id = Some 111\<rparr>"

definition ex_world :: world where
  "ex_world = \<lparr>db = \<lparr>users = [ex_user, ex_user2], clients = [], leads = [ex_lead]\<rparr>,
     calls = [], clock = 0, drawn = 0\<rparr>"

definition ex_payload :: WebhookPayload where
  "ex_payload = \<lparr>p_source = lit ''instagram'', p_text = lit ''booking request'',
     p_name = Some (lit ''Anna''), p_phone = Some (lit ''+10000000000'')\<rparr>"

text \<open>The same store with the lead not bound to any message.\<close>

definition ex_lead_unbound :: lead_row where
  "ex_lead_unbound = ex_lead\<lparr>l_tg_chat_id := None, l_tg_message_id := None\<rparr>"

definition ex_world_unbound :: world where
  "ex_world_unbound = \<lparr>db = \<lparr>users = [ex_user, ex_user2], clients = [], leads = [ex_lead_unbound]\<rparr>,
     calls = [], clock = 0, drawn = 0\<rparr>"

text \<open>
  A store in which the first tenant has a client with the phone \<open>+1\<close> and the name
  \<open>Anna\<close>, and one in which that client has no name yet.
\<close>

definition ex_client_row :: client_row where
  "ex_client_row = \<lparr>c_id = 7, c_user_id = 1, c_name = Some (lit ''Anna''),
     c_phone = Some (lit ''+1''), c_created_at = lit ''2026-01-05T00:00:00+00:00''\<rparr>"

definition ex_world_client :: world where
  "ex_world_client = \<lparr>db = \<lparr>users = [ex_user, ex_user2], clients = [ex_client_row], leads = []\<rparr>,
     calls = [], clock = 0, drawn = 0\<rparr>"

text \<open>A store in which the first tenant has 101 leads, numbered 1 to 101.\<close>

definition ex_many_leads :: "lead_row list" where
  "ex_many_leads = map (\<lambda>i. ex_lead\<lparr>l_id := int i\<rparr>) [1..<102]"

definition ex_world_many :: world where
  "ex_world_many = \<lparr>db = \<lparr>users = [ex_user, ex_user2], clients = [], leads = ex_many_leads\<rparr>,
     calls = [], clock = 0, drawn = 0\<rparr>"

section \<open>The store: fresh ids and frames\<close>


lemma fold_max_ge: "(a::int) \<le> fold max xs a \<and> (\<forall>x \<in> set xs. x \<le> fold max xs a)"
proof (induction xs arbitrary: a)
  case Nil
  then show ?case by simp
next
  case (Cons y ys)
  have "max y a \<le> fold max ys (max y a)" using Cons.IH by blast
  moreover have "\<forall>x \<in> set ys. x \<le> fold max ys (max y a)" using Cons.IH by blast
  ultimately show ?case by auto
qed

lemma fold_max_mem: "fold max xs (a::int) \<in> set (a # xs)"
proof (induction xs arbitrary: a)
  case Nil
  then show ?case by simp
next
  case (Cons y ys)
  have m: "max y a = y \<or> max y a = a" by (simp add: max_def)
  have "fold max ys (max y a) \<in> set (max y a # ys)" by (rule Cons.IH)
  with m show ?case by auto
qed

lemma next_id_fresh: "i \<in> set ids \<Longrightarrow> i < next_id ids"
  using fold_max_ge [of 0 ids] by (auto simp: next_id_def)

lemma next_id_notin: "next_id ids \<notin> set ids"
  using next_id_fresh by blast

lemma find_append_fresh:
  "\<forall>x \<in> set xs. \<not> P x \<Longrightarrow> P y \<Longrightarrow> find P (xs @ [y]) = Some y"
  by (induction xs) auto



lemma newest_client_mem:
  "newest_client d user_id ph = Some cid \<Longrightarrow> cid \<in> set (map c_id (clients d))"
proof -
  assume a: "newest_client d user_id ph = Some cid"
  let ?ms = "filter (\<lambda>c. c_user_id c = user_id \<and> c_phone c = Some ph) (clients d)"
  from a obtain c cs where ms: "?ms = c # cs" and cid: "cid = fold max (map c_id cs) (c_id c)"
    by (auto simp: newest_client_def split: list.splits)
  have "cid \<in> set (c_id c # map c_id cs)" unfolding cid by (rule fold_max_mem)
  then have "cid \<in> set (map c_id ?ms)" using ms by simp
  then show ?thesis by auto
qed

lemma update_client_name_frame:
  "users (update_client_name d name cid) = users d"
  "leads (update_client_name d name cid) = leads d"
  "map c_id (clients (update_client_name d name cid)) = map c_id (clients d)"
  by (simp_all add: update_client_name_def o_def if_distrib cong: if_cong)









section \<open>The callback handler, case by case\<close>


lemma ack_step:
  "(case cq_id cq of
      None \<Rightarrow> (Inr (), w)
    | Some i \<Rightarrow> if i = [] then (Inr (), w) else answer_callback_query e c w i) =
   ((case ack_error e c w cq of None \<Rightarrow> Inr () | Some err \<Rightarrow> Inl err),
    w\<lparr>calls := calls w @ ack_calls cq\<rparr>)"
  by (simp add: ack_error_def ack_calls_def answer_callback_query_def
      split: option.splits sum.splits)

lemma cq_origin_SomeD:
  assumes "cq_origin cq = Some (chat, message)"
  shows "\<exists>m ch. cq_message cq = Some m \<and> msg_chat m = Some ch \<and> chat_id ch = Some chat \<and>
           msg_message_id m = Some message \<and> chat \<noteq> 0 \<and> message \<noteq> 0"
  using assms by (auto simp: cq_origin_def split: option.splits if_splits)


lemma callback_token_SomeD:
  assumes "callback_token data = Some (lead_id, status)"
  shows "startswith data (lit ''lead:'') \<and> length (split_sep data 58) = 3 \<and>
         py_int (split_sep data 58 ! 1) = Some lead_id \<and> split_sep data 58 ! 2 = status \<and>
         status \<in> set [lit ''booked'', lit ''call_back'', lit ''rejected'', lit ''new'']"
  using assms by (auto simp: callback_token_def Let_def split: if_splits option.splits)



lemma handle_callback_query_applied:
  assumes "ack_error e c w cq = None"
    and "cq_origin cq = Some (chat, message)"
    and "callback_token (cq_token_text cq) = Some (lead_id, status)"
  shows "handle_callback_query e c w cq =
     (case get_lead_by_id (set_lead_status (db w) lead_id status) lead_id of
        None \<Rightarrow> (Inr (), w\<lparr>calls := calls w @ ack_calls cq,
                            db := set_lead_status (db w) lead_id status\<rparr>)
      | Some lead \<Rightarrow>
          edit_message_text e c
            (w\<lparr>calls := calls w @ ack_calls cq, db := set_lead_status (db w) lead_id status\<rparr>)
            chat message (format_lead_text e lead) (Some (lead_keyboard lead_id)))"
proof -
  from cq_origin_SomeD [OF assms(2)] obtain m ch where
    o: "cq_message cq = Some m" "msg_chat m = Some ch" "chat_id ch = Some chat"
       "msg_message_id m = Some message" "chat \<noteq> 0" "message \<noteq> 0"
    by blast
  note t = callback_token_SomeD [OF assms(3), unfolded cq_token_text_def]
  show ?thesis
    unfolding handle_callback_query_def Let_def ack_step
    using t by (simp add: assms(1) o truthy_int_def split: option.split)
qed



lemma startswith_contains: "startswith s sub \<Longrightarrow> contains s sub"
  by (cases s) (simp_all add: startswith_def)

lemma contains_append: "contains (pre @ sub @ post) sub"
proof (induction pre)
  case Nil
  show ?case by (rule startswith_contains) (simp add: startswith_def)
next
  case (Cons a pre)
  then show ?case by simp
qed

lemma format_lead_text_label:
  "contains (format_lead_text e lead)
     (case STATUS_LABEL (l_status lead) of None \<Rightarrow> l_status lead | Some b \<Rightarrow> b)"
proof -
  let ?label = "case STATUS_LABEL (l_status lead) of None \<Rightarrow> l_status lead | Some b \<Rightarrow> b"
  let ?pre = "(case STATUS_EMOJI (l_status lead) of None \<Rightarrow> [63743, 252, 236, 249] | Some m \<Rightarrow> m) @
     [32, 8211, 243, 8211, 8734, 8212, 232, 8211, 8804, 8211, 8747, 8211, 8734, 32, 35] @
     str_int (l_id lead) @ [32, 8218, 196, 238, 32]"
  have "\<exists>post. format_lead_text e lead = ?pre @ ?label @ post"
    by (simp add: format_lead_text_def Let_def)
  then obtain post where "format_lead_text e lead = ?pre @ ?label @ post" by blast
  then show ?thesis by (simp only: contains_append)
qed

lemma status_label_defined:
  assumes "status \<in> set [lit ''booked'', lit ''call_back'', lit ''rejected'', lit ''new'']"
  shows "\<exists>label. STATUS_LABEL status = Some label"
  using assms by (auto simp: STATUS_LABEL_def lit_def)

lemma get_lead_by_id_set_status:
  "get_lead_by_id d lead_id = Some lead \<Longrightarrow>
   get_lead_by_id (set_lead_status d lead_id status) lead_id = Some (lead\<lparr>l_status := status\<rparr>)"
proof -
  have "find (\<lambda>l. l_id l = lead_id) ls = Some lead \<Longrightarrow>
        find (\<lambda>l. l_id l = lead_id)
          (map (\<lambda>l. if l_id l = lead_id then l\<lparr>l_status := status\<rparr> else l) ls) =
        Some (lead\<lparr>l_status := status\<rparr>)" for ls
    by (induction ls) (auto split: if_splits)
  then show "get_lead_by_id d lead_id = Some lead \<Longrightarrow>
   get_lead_by_id (set_lead_status d lead_id status) lead_id = Some (lead\<lparr>l_status := status\<rparr>)"
    by (simp add: get_lead_by_id_def set_lead_status_def)
qed

lemma get_lead_by_id_set_status_None:
  "get_lead_by_id d lead_id = None \<Longrightarrow>
   get_lead_by_id (set_lead_status d lead_id status) lead_id = None"
  by (auto simp: get_lead_by_id_def set_lead_status_def find_None_iff)

lemma edit_message_text_world:
  "snd (edit_message_text e c w chat message text reply_markup) =
     w\<lparr>calls := calls w @ [EditMessageText chat message text reply_markup]\<rparr>"
  by (simp add: edit_message_text_def Let_def split: sum.split)

lemma edit_target_ack_calls: "List.map_filter edit_target (ack_calls cq) = []"
  by (simp add: ack_calls_def List.map_filter_simps split: option.split)

lemma callback_applied_world:
  assumes "ack_error e c w cq = None"
    and "cq_origin cq = Some (chat, message)"
    and "callback_token (cq_token_text cq) = Some (lead_id, status)"
    and "get_lead_by_id (db w) lead_id = Some lead"
  shows "snd (handle_callback_query e c w cq) =
     w\<lparr>calls := calls w @ ack_calls cq @
          [EditMessageText chat message (format_lead_text e (lead\<lparr>l_status := status\<rparr>))
             (Some (lead_keyboard lead_id))],
        db := set_lead_status (db w) lead_id status\<rparr>"
  by (simp add: handle_callback_query_applied [OF assms(1-3)]
        get_lead_by_id_set_status [OF assms(4)] edit_message_text_world)








lemma edits_between_applied:
  "edits_between w
     (w\<lparr>calls := calls w @ ack_calls cq @ [EditMessageText chat message text reply_markup],
        db := d\<rparr>) = [(chat, message)]"
  by (simp add: edits_between_def ack_calls_def List.map_filter_simps split: option.split)

lemma edits_between_dropped:
  "edits_between w (w\<lparr>calls := calls w @ ack_calls cq, db := d\<rparr>) = []"
  by (simp add: edits_between_def ack_calls_def List.map_filter_simps split: option.split)


lemma callback_edits:
  assumes "ack_error e c w cq = None"
    and "cq_origin cq = Some (chat, message)"
    and "callback_token (cq_token_text cq) = Some (lead_id, status)"
  shows "edits_between w (snd (handle_callback_query e c w cq)) =
     (case get_lead_by_id (db w) lead_id of None \<Rightarrow> [] | Some lead \<Rightarrow> [(chat, message)])"
proof (cases "get_lead_by_id (db w) lead_id")
  case None
  then show ?thesis
    by (simp add: handle_callback_query_applied [OF assms] get_lead_by_id_set_status_None
          edits_between_dropped)
next
  case (Some lead)
  then show ?thesis
    by (simp add: callback_applied_world [OF assms Some] edits_between_applied)
qed

lemma ex_cq_bound_facts:
  "cq_origin ex_cq_bound = Some (777, 111)"
  "callback_token (cq_token_text ex_cq_bound) = Some (42, lit ''booked'')"
  "ack_error ex_env ex_client w ex_cq_bound = None"
  by (simp_all add: cq_origin_def callback_token_def cq_token_text_def ack_error_def
        ex_cq_bound_def ex_env_def ex_client_def or_else_def strip_def isspace_def
        whitespace_def startswith_def py_int_def ascii_space_def ascii_digit_def
        int_max_str_digits_def lit_def Let_def)

lemma ex_cq_other_facts:
  "cq_origin ex_cq_other = Some (999, 5)"
  "callback_token (cq_token_text ex_cq_other) = Some (42, lit ''booked'')"
  "ack_error ex_env ex_client w ex_cq_other = None"
  "cq_id ex_cq_other = cq_id ex_cq_bound"
  "cq_data ex_cq_other = cq_data ex_cq_bound"
  by (simp_all add: cq_origin_def callback_token_def cq_token_text_def ack_error_def
        ex_cq_other_def ex_cq_bound_def ex_env_def ex_client_def or_else_def strip_def
        isspace_def whitespace_def startswith_def py_int_def ascii_space_def ascii_digit_def
        int_max_str_digits_def lit_def Let_def)


lemma ex_world_lead:
  "get_lead_by_id (db ex_world) 42 = Some ex_lead"
  "get_lead_by_id (db ex_world_unbound) 42 = Some ex_lead_unbound"
  "l_tg_chat_id ex_lead = Some 777" "l_tg_message_id ex_lead = Some 111"
  "l_tg_message_id ex_lead_unbound = None"
  "l_user_id ex_lead = u_id ex_user"
  by (simp_all add: get_lead_by_id_def ex_world_def ex_world_unbound_def ex_lead_def
        ex_lead_unbound_def ex_user_def)

section \<open>The client resolver, case by case\<close>


lemma update_client_name_sets:
  assumes "name \<noteq> None"
  shows "\<forall>c \<in> set (clients (update_client_name d name cid)). c_id c = cid \<longrightarrow> c_name c = name"
proof -
  from assms obtain n where n: "name = Some n" by (cases name) auto
  have aux: "c_id c = cid \<longrightarrow> c_name c = Some n"
    if "c \<in> set (map (\<lambda>c. if c_id c = cid then c\<lparr>c_name := Some n\<rparr> else c) cs)" for c cs
    using that by (induction cs) (auto split: if_splits)
  have eq: "clients (update_client_name d (Some n) cid) =
      map (\<lambda>c. if c_id c = cid then c\<lparr>c_name := Some n\<rparr> else c) (clients d)"
    by (simp add: update_client_name_def coalesce_def)
  show ?thesis unfolding n eq using aux by blast
qed


lemma update_client_name_others:
  "\<forall>c \<in> set (clients d). c_id c \<noteq> cid \<longrightarrow> c \<in> set (clients (update_client_name d name cid))"
  by (auto simp: update_client_name_def)

lemma upsert_client_match:
  assumes "newest_client (db w) user_id ph = Some cid" and "ph \<noteq> []"
  shows "upsert_client e w user_id name (Some ph) =
     (Inr (Some cid),
      if truthy name then w\<lparr>db := update_client_name (db w) name cid\<rparr> else w)"
  using assms by (simp add: upsert_client_def truthy_def)

lemma upsert_client_insert:
  assumes "newest_client (db w) user_id ph = None" and "ph \<noteq> []"
    and "user_id \<in> set (map u_id (users (db w)))"
  shows "upsert_client e w user_id name (Some ph) =
     (Inr (Some (next_id (map c_id (clients (db w))))),
      w\<lparr>clock := clock w + 1,
         db := (db w)\<lparr>clients := clients (db w) @
           [\<lparr>c_id = next_id (map c_id (clients (db w))), c_user_id = user_id, c_name = name,
             c_phone = Some ph, c_created_at = clock_iso e (clock w)\<rparr>]\<rparr>\<rparr>)"
  using assms by (simp add: upsert_client_def truthy_def utc_now_iso_def Let_def)

lemma newest_client_after_insert:
  assumes "newest_client d user_id ph = None"
  shows "newest_client
           (d\<lparr>clients := clients d @ [\<lparr>c_id = cid, c_user_id = user_id, c_name = name,
               c_phone = Some ph, c_created_at = now\<rparr>]\<rparr>) user_id ph = Some cid"
proof -
  have "filter (\<lambda>c. c_user_id c = user_id \<and> c_phone c = Some ph) (clients d) = []"
    using assms by (simp add: newest_client_def split: list.splits)
  then show ?thesis by (simp add: newest_client_def)
qed


lemma ex_world_client_facts:
  "lit ''+1'' \<noteq> []"
  "1 \<in> set (map u_id (users (db ex_world_client)))"
  "newest_client (db ex_world_client) 1 (lit ''+1'') = Some 7"
  "truthy (Some (lit ''Bob''))"
  "lit ''Bob'' \<noteq> []"
  by (simp_all add: ex_world_client_def ex_user_def ex_user2_def ex_client_row_def
        newest_client_def truthy_def lit_def)

section \<open>The tenant registry, case by case\<close>


lemma find_token_iff:
  "(find (\<lambda>u. u_token u = t) us \<noteq> None) = (t \<in> set (map u_token us))"
  by (induction us) auto

lemma find_chat_iff:
  "(find (\<lambda>u. u_tg_chat_id u = Some chat) us \<noteq> None) = (Some chat \<in> set (map u_tg_chat_id us))"
  by (induction us) auto

lemma gen_unique_token_terminates:
  "secrets_token e (k + n) \<notin> set (map u_token (users d)) \<Longrightarrow>
   \<exists>j. k \<le> j \<and> gen_unique_token e d k = Some (secrets_token e j, j + 1) \<and>
       secrets_token e j \<notin> set (map u_token (users d))"
proof (induction n arbitrary: k)
  case 0
  then have "find (\<lambda>u. u_token u = secrets_token e k) (users d) = None"
    using find_token_iff [of "secrets_token e k" "users d"] by simp
  then have "gen_unique_token e d k = Some (secrets_token e k, k + 1)"
    by (subst gen_unique_token.simps) simp
  with 0 show ?case by auto
next
  case (Suc n)
  show ?case
  proof (cases "secrets_token e k \<in> set (map u_token (users d))")
    case False
    then have "find (\<lambda>u. u_token u = secrets_token e k) (users d) = None"
      using find_token_iff [of "secrets_token e k" "users d"] by simp
    then have "gen_unique_token e d k = Some (secrets_token e k, k + 1)"
      by (subst gen_unique_token.simps) simp
    with False show ?thesis by auto
  next
    case True
    then have "find (\<lambda>u. u_token u = secrets_token e k) (users d) \<noteq> None"
      using find_token_iff [of "secrets_token e k" "users d"] by simp
    then have step: "gen_unique_token e d k = gen_unique_token e d (k + 1)"
      by (subst gen_unique_token.simps) simp
    from Suc.prems have "secrets_token e ((k + 1) + n) \<notin> set (map u_token (users d))"
      by simp
    from Suc.IH [OF this] obtain j where
      "k + 1 \<le> j" "gen_unique_token e d (k + 1) = Some (secrets_token e j, j + 1)"
      "secrets_token e j \<notin> set (map u_token (users d))" by blast
    with step show ?thesis by (intro exI [of _ j]) simp
  qed
qed

lemma get_or_create_bound:
  assumes "find (\<lambda>u. u_tg_chat_id u = Some chat) (users (db w)) = Some row"
  shows "get_or_create_user_by_chat_id e w chat = Some (Inr row, w)"
  using assms by (simp add: get_or_create_user_by_chat_id_def)

lemma get_or_create_unbound:
  assumes nb: "find (\<lambda>u. u_tg_chat_id u = Some chat) (users (db w)) = None"
    and g: "gen_unique_token e (db w) (drawn w) = Some (token, k)"
    and fr: "token \<notin> set (map u_token (users (db w)))"
  shows "get_or_create_user_by_chat_id e w chat =
     Some (Inr \<lparr>u_id = next_id (map u_id (users (db w))), u_tg_chat_id = Some chat,
                u_token = token, u_created_at = clock_iso e (clock w)\<rparr>,
           w\<lparr>drawn := k, clock := clock w + 1,
              db := (db w)\<lparr>users := users (db w) @
                [\<lparr>u_id = next_id (map u_id (users (db w))), u_tg_chat_id = Some chat,
                  u_token = token, u_created_at = clock_iso e (clock w)\<rparr>]\<rparr>\<rparr>)"
proof -
  let ?row = "\<lparr>u_id = next_id (map u_id (users (db w))), u_tg_chat_id = Some chat,
                u_token = token, u_created_at = clock_iso e (clock w)\<rparr>"
  have nochat: "\<forall>u \<in> set (users (db w)). u_tg_chat_id u \<noteq> Some chat"
    using nb by (simp add: find_None_iff)
  have notok: "\<forall>u \<in> set (users (db w)). u_token u \<noteq> token"
    using fr by auto
  have chk: "find (\<lambda>u. u_tg_chat_id u = Some chat \<or> u_token u = token) (users (db w)) = None"
    using nochat notok by (simp add: find_None_iff)
  have fnd: "find (\<lambda>u. u_tg_chat_id u = Some chat) (users (db w) @ [?row]) = Some ?row"
    by (rule find_append_fresh) (use nochat in simp_all)
  show ?thesis
    by (simp add: get_or_create_user_by_chat_id_def nb g utc_now_iso_def chk fnd Let_def)
qed

section \<open>Listing leads\<close>


lemma sql_limit_length: "length (sql_limit n rows) = (if n < 0 then length rows else min (nat n) (length rows))"
  by (simp add: sql_limit_def min.commute)

lemma list_recent_leads_length:
  "length (list_recent_leads d user_id limit) =
     (if limit < 0 then length (filter (\<lambda>l. l_user_id l = user_id) (leads d))
      else min (nat limit) (length (filter (\<lambda>l. l_user_id l = user_id) (leads d))))"
  by (simp add: list_recent_leads_def sql_limit_length)

lemma list_recent_leads_clamped:
  "length (list_recent_leads d user_id (max 1 (min n 100))) \<le> 100"
  by (simp add: list_recent_leads_length)

lemma ex_many_leads_filter:
  "filter (\<lambda>l. l_user_id l = 1) ex_many_leads = ex_many_leads"
  by (simp add: ex_many_leads_def filter_map o_def ex_lead_def)

lemma ex_many_leads_length: "length ex_many_leads = 101"
  by (simp add: ex_many_leads_def)

section \<open>The handlers return\<close>






section \<open>The batch loop and its cursor\<close>








section \<open>The webhook\<close>




text \<open>
  Claim C7.  A token that no tenant row carries makes \<open>webhook\<close> answer with the not-found
  failure and leave the whole state as it was: no lead, no client, no transport call.
\<close>

theorem webhook_unknown_token:
  assumes "token \<notin> set (map u_token (users (db w)))"
  shows "webhook e settings w token payload = (Inl (HTTPException 404 (lit ''Unknown token'')), w)"
proof -
  have "get_user_by_token (db w) token = None"
    using assms by (auto simp: get_user_by_token_def find_None_iff)
  then show ?thesis by (simp add: webhook_def)
qed

theorem webhook_unknown_token_witness:
  "lit ''nobody'' \<notin> set (map u_token (users (db ex_world))) \<and>
   webhook ex_env ex_settings ex_world (lit ''nobody'') ex_payload =
     (Inl (HTTPException 404 (lit ''Unknown token'')), ex_world)"
proof -
  have h: "lit ''nobody'' \<notin> set (map u_token (users (db ex_world)))"
    by (simp add: ex_world_def ex_user_def ex_user2_def lit_def)
  show ?thesis
    using h webhook_unknown_token [OF h, of ex_env ex_settings ex_payload] by simp
qed

section \<open>Inline action callbacks\<close>

text \<open>
  Claim C2, as the code has it.  For every stored lead with a bound remote message, a
  callback that carries a well-formed token naming the lead, comes with its originating
  chat and message, and whose acknowledgment does not fail, leaves the lead in the store
  with the new status and makes exactly one edit call.  The edit is aimed at the callback
  event's own chat and message: it is aimed at the lead's bound pair exactly when the
  callback comes from the bound message.  The text sent is the rendering of the updated
  lead and contains the label of the new status.
\<close>

theorem callback_edit_of_bound_lead:
  assumes "get_lead_by_id (db w) lead_id = Some lead"
    and "l_tg_chat_id lead = Some bound_chat"
    and "l_tg_message_id lead = Some bound_message"
    and "callback_token (cq_token_text cq) = Some (lead_id, status)"
    and "cq_origin cq = Some (chat, message)"
    and "ack_error e c w cq = None"
  shows "get_lead_by_id (db (snd (handle_callback_query e c w cq))) lead_id =
           Some (lead\<lparr>l_status := status\<rparr>) \<and>
         calls (snd (handle_callback_query e c w cq)) =
           calls w @ ack_calls cq @
             [EditMessageText chat message (format_lead_text e (lead\<lparr>l_status := status\<rparr>))
                (Some (lead_keyboard lead_id))] \<and>
         edits_between w (snd (handle_callback_query e c w cq)) = [(chat, message)] \<and>
         ((edits_between w (snd (handle_callback_query e c w cq)) =
             [(bound_chat, bound_message)]) =
          (chat = bound_chat \<and> message = bound_message)) \<and>
         (\<exists>label. STATUS_LABEL status = Some label \<and>
            contains (format_lead_text e (lead\<lparr>l_status := status\<rparr>)) label)"
proof -
  note w' = callback_applied_world [OF assms(6) assms(5) assms(4) assms(1)]
  have st: "status \<in> set [lit ''booked'', lit ''call_back'', lit ''rejected'', lit ''new'']"
    using callback_token_SomeD [OF assms(4)] by blast
  from status_label_defined [OF st] obtain label where l: "STATUS_LABEL status = Some label"
    by blast
  have "contains (format_lead_text e (lead\<lparr>l_status := status\<rparr>)) label"
    using format_lead_text_label [of e "lead\<lparr>l_status := status\<rparr>"] by (simp add: l)
  with l have lab: "\<exists>label. STATUS_LABEL status = Some label \<and>
      contains (format_lead_text e (lead\<lparr>l_status := status\<rparr>)) label" by blast
  have g: "get_lead_by_id (db (snd (handle_callback_query e c w cq))) lead_id =
           Some (lead\<lparr>l_status := status\<rparr>)"
    by (simp add: w' get_lead_by_id_set_status [OF assms(1)])
  have ed: "edits_between w (snd (handle_callback_query e c w cq)) = [(chat, message)]"
    by (simp add: w' edits_between_applied)
  show ?thesis using g ed lab by (simp add: w')
qed

theorem callback_edit_of_bound_lead_witness:
  "get_lead_by_id (db ex_world) 42 = Some ex_lead \<and>
   l_tg_chat_id ex_lead = Some 777 \<and> l_tg_message_id ex_lead = Some 111 \<and>
   callback_token (cq_token_text ex_cq_bound) = Some (42, lit ''booked'') \<and>
   cq_origin ex_cq_bound = Some (777, 111) \<and>
   ack_error ex_env ex_client ex_world ex_cq_bound = None \<and>
   get_lead_by_id (db (snd (handle_callback_query ex_env ex_client ex_world ex_cq_bound))) 42 =
     Some (ex_lead\<lparr>l_status := lit ''booked''\<rparr>) \<and>
   edits_between ex_world (snd (handle_callback_query ex_env ex_client ex_world ex_cq_bound)) =
     [(777, 111)] \<and>
   (\<exists>label. STATUS_LABEL (lit ''booked'') = Some label \<and>
      contains (format_lead_text ex_env (ex_lead\<lparr>l_status := lit ''booked''\<rparr>)) label)"
  using callback_edit_of_bound_lead [OF ex_world_lead(1) ex_world_lead(3) ex_world_lead(4)
      ex_cq_bound_facts(2) ex_cq_bound_facts(1) ex_cq_bound_facts(3)]
    ex_world_lead(1) ex_world_lead(3) ex_world_lead(4) ex_cq_bound_facts
  by simp

text \<open>
  The claim as the specification words it fails for a callback pressed elsewhere: lead 42
  is bound to message 111 of chat 777, the callback comes from message 5 of chat 999, and
  the one edit call is aimed at message 5 of chat 999.
\<close>

theorem callback_edit_target_counterexample:
  "get_lead_by_id (db ex_world) 42 = Some ex_lead \<and>
   l_tg_chat_id ex_lead = Some 777 \<and> l_tg_message_id ex_lead = Some 111 \<and>
   edits_between ex_world (snd (handle_callback_query ex_env ex_client ex_world ex_cq_other)) =
     [(999, 5)]"
  using callback_edits [OF ex_cq_other_facts(3) ex_cq_other_facts(1) ex_cq_other_facts(2),
      of ex_world] ex_world_lead
  by simp

text \<open>
  Claim C3, as the code has it.  For every stored lead that has no bound remote message,
  a callback with a well-formed token naming it, an originating chat and message and an
  acknowledgment that does not fail persists the new status, and the edit primitive is
  invoked all the same: once, aimed at the callback event's own chat and message.  The
  handler never reads the lead's binding.
\<close>

theorem callback_edit_of_unbound_lead:
  assumes "get_lead_by_id (db w) lead_id = Some lead"
    and "l_tg_message_id lead = None"
    and "callback_token (cq_token_text cq) = Some (lead_id, status)"
    and "cq_origin cq = Some (chat, message)"
    and "ack_error e c w cq = None"
  shows "get_lead_by_id (db (snd (handle_callback_query e c w cq))) lead_id =
           Some (lead\<lparr>l_status := status\<rparr>) \<and>
         l_tg_message_id (lead\<lparr>l_status := status\<rparr>) = None \<and>
         edits_between w (snd (handle_callback_query e c w cq)) = [(chat, message)]"
proof -
  note w' = callback_applied_world [OF assms(5) assms(4) assms(3) assms(1)]
  show ?thesis
    by (simp add: w' get_lead_by_id_set_status [OF assms(1)] edits_between_applied assms(2))
qed

theorem callback_edit_of_unbound_lead_witness:
  "get_lead_by_id (db ex_world_unbound) 42 = Some ex_lead_unbound \<and>
   l_tg_message_id ex_lead_unbound = None \<and>
   get_lead_by_id
     (db (snd (handle_callback_query ex_env ex_client ex_world_unbound ex_cq_bound))) 42 =
     Some (ex_lead_unbound\<lparr>l_status := lit ''booked''\<rparr>) \<and>
   edits_between ex_world_unbound
     (snd (handle_callback_query ex_env ex_client ex_world_unbound ex_cq_bound)) = [(777, 111)]"
  using callback_edit_of_unbound_lead [OF ex_world_lead(2) ex_world_lead(5)
      ex_cq_bound_facts(2) ex_cq_bound_facts(1) ex_cq_bound_facts(3)]
    ex_world_lead(2) ex_world_lead(5)
  by simp

text \<open>
  The claim as the specification words it fails: the lead has no bound message, and the
  callback still produces an edit call.
\<close>

theorem callback_edit_unbound_counterexample:
  "get_lead_by_id (db ex_world_unbound) 42 = Some ex_lead_unbound \<and>
   l_tg_chat_id ex_lead_unbound = None \<and> l_tg_message_id ex_lead_unbound = None \<and>
   edits_between ex_world_unbound
     (snd (handle_callback_query ex_env ex_client ex_world_unbound ex_cq_bound)) = [(777, 111)]"
  using callback_edits [OF ex_cq_bound_facts(3) ex_cq_bound_facts(1) ex_cq_bound_facts(2),
      of ex_world_unbound] ex_world_lead
  by (simp add: ex_lead_unbound_def)






section \<open>The client resolver\<close>

text \<open>
  Claim C4, as the code has it.  For a tenant that exists and a non-empty phone: when a
  client of that tenant with that phone exists, \<open>upsert_client\<close> returns the id of the
  newest one; a non-empty incoming name is then written over the stored name of that
  client, whether the stored name was null or not, and a null or empty incoming name
  leaves the store as it was (a stored name never goes back to null).  In particular, two
  calls with the same tenant and phone, the first with a null name and the second with a
  name, return the same client id, and the stored name afterwards is the second call's.
\<close>

theorem upsert_client_merges_name:
  assumes "ph \<noteq> []" and "user_id \<in> set (map u_id (users (db w)))"
  shows "(\<forall>cid. newest_client (db w) user_id ph = Some cid \<longrightarrow>
            fst (upsert_client e w user_id name (Some ph)) = Inr (Some cid) \<and>
            (truthy name \<longrightarrow>
               snd (upsert_client e w user_id name (Some ph)) =
                 w\<lparr>db := update_client_name (db w) name cid\<rparr> \<and>
               (\<forall>c \<in> set (clients (db (snd (upsert_client e w user_id name (Some ph))))).
                   c_id c = cid \<longrightarrow> c_name c = name)) \<and>
            (\<not> truthy name \<longrightarrow> snd (upsert_client e w user_id name (Some ph)) = w)) \<and>
         (n \<noteq> [] \<longrightarrow>
            (\<exists>cid w1 w2.
                upsert_client e w user_id None (Some ph) = (Inr (Some cid), w1) \<and>
                upsert_client e w1 user_id (Some n) (Some ph) = (Inr (Some cid), w2) \<and>
                cid \<in> set (map c_id (clients (db w2))) \<and>
                (\<forall>c \<in> set (clients (db w2)). c_id c = cid \<longrightarrow> c_name c = Some n)))"
proof (intro conjI allI impI)
  fix cid
  assume m: "newest_client (db w) user_id ph = Some cid"
  note eq = upsert_client_match [OF m assms(1), of e name]
  show "fst (upsert_client e w user_id name (Some ph)) = Inr (Some cid)" by (simp add: eq)
  show "snd (upsert_client e w user_id name (Some ph)) = w" if "\<not> truthy name"
    using that by (simp add: eq)
  show "snd (upsert_client e w user_id name (Some ph)) =
          w\<lparr>db := update_client_name (db w) name cid\<rparr>" if "truthy name"
    using that by (simp add: eq)
  show "\<forall>c \<in> set (clients (db (snd (upsert_client e w user_id name (Some ph))))).
           c_id c = cid \<longrightarrow> c_name c = name" if t: "truthy name"
  proof -
    have "name \<noteq> None" using t by (cases name) (auto simp: truthy_def)
    from update_client_name_sets [OF this] show ?thesis using t by (simp add: eq)
  qed
next
  assume n: "n \<noteq> []"
  have tn: "truthy (Some n)" using n by (simp add: truthy_def)
  show "\<exists>cid w1 w2.
          upsert_client e w user_id None (Some ph) = (Inr (Some cid), w1) \<and>
          upsert_client e w1 user_id (Some n) (Some ph) = (Inr (Some cid), w2) \<and>
          cid \<in> set (map c_id (clients (db w2))) \<and>
          (\<forall>c \<in> set (clients (db w2)). c_id c = cid \<longrightarrow> c_name c = Some n)"
  proof (cases "newest_client (db w) user_id ph")
    case (Some cid)
    define w2 where "w2 = w\<lparr>db := update_client_name (db w) (Some n) cid\<rparr>"
    have d2: "db w2 = update_client_name (db w) (Some n) cid" by (simp add: w2_def)
    have 1: "upsert_client e w user_id None (Some ph) = (Inr (Some cid), w)"
      using upsert_client_match [OF Some assms(1), of e None] by (simp add: truthy_def)
    have 2: "upsert_client e w user_id (Some n) (Some ph) = (Inr (Some cid), w2)"
      using upsert_client_match [OF Some assms(1), of e "Some n"] tn by (simp add: w2_def)
    have 3: "cid \<in> set (map c_id (clients (db w2)))"
      using newest_client_mem [OF Some] by (simp only: d2 update_client_name_frame)
    have 4: "\<forall>c \<in> set (clients (db w2)). c_id c = cid \<longrightarrow> c_name c = Some n"
      unfolding d2 by (rule update_client_name_sets) simp
    show ?thesis
    proof (intro exI conjI)
      show "upsert_client e w user_id None (Some ph) = (Inr (Some cid), w)" by (rule 1)
      show "upsert_client e w user_id (Some n) (Some ph) = (Inr (Some cid), w2)" by (rule 2)
      show "cid \<in> set (map c_id (clients (db w2)))" by (rule 3)
      show "\<forall>c \<in> set (clients (db w2)). c_id c = cid \<longrightarrow> c_name c = Some n" by (rule 4)
    qed
  next
    case None
    define cid where "cid = next_id (map c_id (clients (db w)))"
    define w1 where "w1 = w\<lparr>clock := clock w + 1,
         db := (db w)\<lparr>clients := clients (db w) @
           [\<lparr>c_id = cid, c_user_id = user_id, c_name = None,
             c_phone = Some ph, c_created_at = clock_iso e (clock w)\<rparr>]\<rparr>\<rparr>"
    define w2 where "w2 = w1\<lparr>db := update_client_name (db w1) (Some n) cid\<rparr>"
    have d1: "db w1 = (db w)\<lparr>clients := clients (db w) @
           [\<lparr>c_id = cid, c_user_id = user_id, c_name = None,
             c_phone = Some ph, c_created_at = clock_iso e (clock w)\<rparr>]\<rparr>"
      by (simp add: w1_def)
    have d2: "db w2 = update_client_name (db w1) (Some n) cid" by (simp add: w2_def)
    have 1: "upsert_client e w user_id None (Some ph) = (Inr (Some cid), w1)"
      unfolding cid_def w1_def by (rule upsert_client_insert [OF None assms(1) assms(2)])
    have m: "newest_client (db w1) user_id ph = Some cid"
      unfolding d1 by (rule newest_client_after_insert [OF None])
    have 2: "upsert_client e w1 user_id (Some n) (Some ph) = (Inr (Some cid), w2)"
      using upsert_client_match [OF m assms(1), of e "Some n"] tn by (simp add: w2_def)
    have 3: "cid \<in> set (map c_id (clients (db w2)))"
      using newest_client_mem [OF m] by (simp only: d2 update_client_name_frame)
    have 4: "\<forall>c \<in> set (clients (db w2)). c_id c = cid \<longrightarrow> c_name c = Some n"
      unfolding d2 by (rule update_client_name_sets) simp
    show ?thesis
    proof (intro exI conjI)
      show "upsert_client e w user_id None (Some ph) = (Inr (Some cid), w1)" by (rule 1)
      show "upsert_client e w1 user_id (Some n) (Some ph) = (Inr (Some cid), w2)" by (rule 2)
      show "cid \<in> set (map c_id (clients (db w2)))" by (rule 3)
      show "\<forall>c \<in> set (clients (db w2)). c_id c = cid \<longrightarrow> c_name c = Some n" by (rule 4)
    qed
  qed
qed

theorem upsert_client_merges_name_witness:
  "lit ''+1'' \<noteq> [] \<and> 1 \<in> set (map u_id (users (db ex_world_client))) \<and>
   newest_client (db ex_world_client) 1 (lit ''+1'') = Some 7 \<and>
   fst (upsert_client ex_env ex_world_client 1 (Some (lit ''Bob'')) (Some (lit ''+1''))) =
     Inr (Some 7) \<and>
   snd (upsert_client ex_env ex_world_client 1 (Some (lit ''Bob'')) (Some (lit ''+1''))) =
     ex_world_client\<lparr>db := update_client_name (db ex_world_client) (Some (lit ''Bob'')) 7\<rparr> \<and>
   (\<exists>cid w1 w2.
      upsert_client ex_env ex_world_client 1 None (Some (lit ''+1'')) = (Inr (Some cid), w1) \<and>
      upsert_client ex_env w1 1 (Some (lit ''Bob'')) (Some (lit ''+1'')) = (Inr (Some cid), w2) \<and>
      cid \<in> set (map c_id (clients (db w2))) \<and>
      (\<forall>c \<in> set (clients (db w2)). c_id c = cid \<longrightarrow> c_name c = Some (lit ''Bob'')))"
  using upsert_client_merges_name [OF ex_world_client_facts(1) ex_world_client_facts(2),
      of ex_env "Some (lit ''Bob'')" "lit ''Bob''"] ex_world_client_facts
  by simp

text \<open>
  The claim as the specification words it fails on a stored non-null name: the client is
  called \<open>Anna\<close>, the incoming name is \<open>Bob\<close>, and the stored name becomes \<open>Bob\<close>.
\<close>

theorem upsert_client_overwrites_name_counterexample:
  "newest_client (db ex_world_client) 1 (lit ''+1'') = Some 7 \<and>
   map c_name (clients (db ex_world_client)) = [Some (lit ''Anna'')] \<and>
   fst (upsert_client ex_env ex_world_client 1 (Some (lit ''Bob'')) (Some (lit ''+1''))) =
     Inr (Some 7) \<and>
   map c_name (clients (db (snd (upsert_client ex_env ex_world_client 1 (Some (lit ''Bob''))
     (Some (lit ''+1'')))))) = [Some (lit ''Bob'')]"
  using upsert_client_match [OF ex_world_client_facts(3) ex_world_client_facts(1),
      of ex_env "Some (lit ''Bob'')"] ex_world_client_facts
  by (simp add: update_client_name_def coalesce_def ex_world_client_def ex_client_row_def)

section \<open>The tenant registry\<close>

text \<open>
  Claim C9.  Provided the source of tokens gives, at some draw from the current one on, a
  token that is not in the table (else the collision loop never ends), or the chat is
  already bound: \<open>get_or_create_user_by_chat_id\<close> returns a tenant row for the chat, and a
  second call with the same chat returns the very same row, so the same id and the same
  token, and changes nothing.  When the chat was not bound before, the row is new: its
  token differs from every token stored before, and so does its id.
\<close>

theorem resolve_tenant_idempotent:
  assumes "Some chat \<in> set (map u_tg_chat_id (users (db w))) \<or>
           (\<exists>k. drawn w \<le> k \<and> secrets_token e k \<notin> set (map u_token (users (db w))))"
  shows "\<exists>user w1.
           get_or_create_user_by_chat_id e w chat = Some (Inr user, w1) \<and>
           get_or_create_user_by_chat_id e w1 chat = Some (Inr user, w1) \<and>
           u_tg_chat_id user = Some chat \<and>
           (if Some chat \<in> set (map u_tg_chat_id (users (db w)))
            then w1 = w \<and> user \<in> set (users (db w))
            else users (db w1) = users (db w) @ [user] \<and>
                 u_token user \<notin> set (map u_token (users (db w))) \<and>
                 u_id user \<notin> set (map u_id (users (db w))))"
proof (cases "find (\<lambda>u. u_tg_chat_id u = Some chat) (users (db w))")
  case (Some row)
  then have b: "Some chat \<in> set (map u_tg_chat_id (users (db w)))"
    using find_chat_iff [of chat "users (db w)"] by simp
  have r: "row \<in> set (users (db w)) \<and> u_tg_chat_id row = Some chat"
    using Some by (auto simp: find_Some_iff)
  have "get_or_create_user_by_chat_id e w chat = Some (Inr row, w)"
    by (rule get_or_create_bound [OF Some])
  with b r show ?thesis by (intro exI [of _ row] exI [of _ w]) simp
next
  case None
  then have nb: "Some chat \<notin> set (map u_tg_chat_id (users (db w)))"
    using find_chat_iff [of chat "users (db w)"] by simp
  with assms obtain k where k: "drawn w \<le> k"
    "secrets_token e k \<notin> set (map u_token (users (db w)))" by blast
  then have "secrets_token e (drawn w + (k - drawn w)) \<notin> set (map u_token (users (db w)))"
    by simp
  from gen_unique_token_terminates [OF this] obtain j where
    g: "gen_unique_token e (db w) (drawn w) = Some (secrets_token e j, j + 1)"
    and fr: "secrets_token e j \<notin> set (map u_token (users (db w)))" by blast
  define row where "row = \<lparr>u_id = next_id (map u_id (users (db w))), u_tg_chat_id = Some chat,
     u_token = secrets_token e j, u_created_at = clock_iso e (clock w)\<rparr>"
  define w1 where "w1 = w\<lparr>drawn := j + 1, clock := clock w + 1,
     db := (db w)\<lparr>users := users (db w) @ [row]\<rparr>\<rparr>"
  have 1: "get_or_create_user_by_chat_id e w chat = Some (Inr row, w1)"
    unfolding row_def w1_def by (rule get_or_create_unbound [OF None g fr])
  have us1: "users (db w1) = users (db w) @ [row]" by (simp add: w1_def)
  have "\<forall>u \<in> set (users (db w)). u_tg_chat_id u \<noteq> Some chat"
    using None by (simp add: find_None_iff)
  then have "find (\<lambda>u. u_tg_chat_id u = Some chat) (users (db w1)) = Some row"
    unfolding us1 by (rule find_append_fresh) (simp add: row_def)
  then have 2: "get_or_create_user_by_chat_id e w1 chat = Some (Inr row, w1)"
    by (rule get_or_create_bound)
  have 3: "u_tg_chat_id row = Some chat" "u_token row \<notin> set (map u_token (users (db w)))"
    "u_id row \<notin> set (map u_id (users (db w)))"
    using fr next_id_notin [of "map u_id (users (db w))"] by (simp_all add: row_def)
  from 1 2 3 us1 nb show ?thesis by (intro exI [of _ row] exI [of _ w1]) simp
qed

theorem resolve_tenant_idempotent_witness:
  "Some 555 \<notin> set (map u_tg_chat_id (users (db ex_world))) \<and>
   secrets_token ex_env 1 \<in> set (map u_token (users (db ex_world))) \<and>
   secrets_token ex_env 2 \<notin> set (map u_token (users (db ex_world))) \<and>
   (\<exists>user w1.
      get_or_create_user_by_chat_id ex_env (ex_world\<lparr>drawn := 1\<rparr>) 555 = Some (Inr user, w1) \<and>
      get_or_create_user_by_chat_id ex_env w1 555 = Some (Inr user, w1) \<and>
      u_tg_chat_id user = Some 555 \<and>
      users (db w1) = users (db ex_world) @ [user] \<and>
      u_token user \<notin> set (map u_token (users (db ex_world))) \<and>
      u_id user \<notin> set (map u_id (users (db ex_world))))"
proof -
  have f: "Some 555 \<notin> set (map u_tg_chat_id (users (db ex_world)))"
    "secrets_token ex_env 1 \<in> set (map u_token (users (db ex_world)))"
    "secrets_token ex_env 2 \<notin> set (map u_token (users (db ex_world)))"
    by (simp_all add: ex_world_def ex_user_def ex_user2_def ex_env_def lit_def
        eval_nat_numeral)
  have h: "Some 555 \<in> set (map u_tg_chat_id (users (db (ex_world\<lparr>drawn := 1\<rparr>)))) \<or>
     (\<exists>k. drawn (ex_world\<lparr>drawn := 1\<rparr>) \<le> k \<and>
        secrets_token ex_env k \<notin> set (map u_token (users (db (ex_world\<lparr>drawn := 1\<rparr>)))))"
    using f(3) by (intro disjI2 exI [of _ 2]) simp
  show ?thesis
    using resolve_tenant_idempotent [OF h] f by simp
qed

section \<open>Listing recent leads\<close>

text \<open>
  Claim C6 does not hold on the diagnostic endpoint.  \<open>list_recent_leads\<close> applies the
  limit it is given, and \<open>debug_list_leads\<close> passes the request's limit on as it is: with
  101 leads stored and a limit of 1000 the response has 101 leads, and with a limit of 0
  it has none.  The \<open>/last\<close> command clamps before the call (\<open>max 1 (min n 100)\<close>), so
  the same limit of 0 gives one lead there.
\<close>

theorem debug_list_leads_unclamped:
  "(case debug_list_leads ex_world_many (lit ''t1'') (Some 1000) of
      Inl err \<Rightarrow> 0
    | Inr ls \<Rightarrow> length ls) = 101 \<and>
   debug_list_leads ex_world (lit ''t1'') (Some 0) = Inr [] \<and>
   list_recent_leads (db ex_world) 1 (max 1 (min 0 100)) = [ex_lead]"
proof -
  have u: "get_user_by_token (db ex_world_many) (lit ''t1'') = Some ex_user"
    "get_user_by_token (db ex_world) (lit ''t1'') = Some ex_user"
    by (simp_all add: get_user_by_token_def ex_world_many_def ex_world_def ex_user_def
          ex_user2_def)
  have 1: "(case debug_list_leads ex_world_many (lit ''t1'') (Some 1000) of
      Inl err \<Rightarrow> 0 | Inr ls \<Rightarrow> length ls) = 101"
  proof -
    have l: "leads (db ex_world_many) = ex_many_leads" by (simp add: ex_world_many_def)
    have i: "u_id ex_user = 1" by (simp add: ex_user_def)
    show ?thesis
      by (simp add: debug_list_leads_def u list_recent_leads_length l i ex_many_leads_filter
            ex_many_leads_length)
  qed
  have 2: "debug_list_leads ex_world (lit ''t1'') (Some 0) = Inr []"
    by (simp add: debug_list_leads_def u(2) list_recent_leads_def sql_limit_def)
  have 3: "list_recent_leads (db ex_world) 1 (max 1 (min 0 100)) = [ex_lead]"
    by (simp add: list_recent_leads_def sql_limit_def ex_world_def ex_lead_def)
  from 1 2 3 show ?thesis by blast
qed

section \<open>The poll loop and its cursor\<close>




end
